theory Spec2Isabelle
  imports Main "HOL-Library.Word"
begin

section \<open>Bytes, errors and Python's integer conversions\<close>

text \<open>
  The proxy is a Python program. Its \<^verbatim>\<open>bytes\<close> values are lists of 8-bit words,
  its integers are unbounded (\<open>int\<close>), and every exception the source can raise is a
  value of \<open>error\<close>: a function that may raise returns \<open>error + 'a\<close>, with
  \<open>Inl\<close> for the exception.
\<close>

type_synonym byte = "8 word"
type_synonym bytes = "byte list"

text \<open>
  JSON values, as the node's replies and the \<^verbatim>\<open>RPCError\<close> messages carry them
  (numbers are integers here; the proxy reads no fractional number).
\<close>

datatype json =
  JNull
  | JBool bool
  | JNum int
  | JStr string
  | JArr "json list"
  | JObj "(string \<times> json) list"

datatype error =
  AssertionError
  | OverflowError
  | IndexError
  | ValueError
  | TypeError
  | AttributeError
  | RPCError int json

definition bind_r :: "error + 'a \<Rightarrow> ('a \<Rightarrow> error + 'b) \<Rightarrow> error + 'b" where
  "bind_r m f = (case m of Inl e \<Rightarrow> Inl e | Inr x \<Rightarrow> f x)"

datatype byteorder = Big | Little

text \<open>The \<open>n\<close> low base-256 digits of \<open>v\<close>, least significant first.\<close>

fun le_digits :: "nat \<Rightarrow> nat \<Rightarrow> bytes" where
  "le_digits 0 v = []"
| "le_digits (Suc n) v = word_of_nat (v mod 256) # le_digits n (v div 256)"

text \<open>
  \<^verbatim>\<open>int.to_bytes(length, byteorder)\<close>: \<^verbatim>\<open>OverflowError\<close> on a negative value and on
  one that does not fit in \<open>length\<close> bytes.
\<close>

definition to_bytes :: "int \<Rightarrow> nat \<Rightarrow> byteorder \<Rightarrow> error + bytes" where
  "to_bytes i n order =
     (if i < 0 \<or> 256 ^ n \<le> i then Inl OverflowError
      else Inr (case order of
                  Little \<Rightarrow> le_digits n (nat i)
                | Big \<Rightarrow> rev (le_digits n (nat i))))"

section \<open>Binary codec\<close>

text \<open>
  \<^verbatim>\<open>
  def var_int(i: int) -> bytes:
      assert i >= 0, i
      if i<0xfd:
          return i.to_bytes(1, 'big')
      elif i<=0xffff:
          return b'\xfd'+i.to_bytes(2, 'big')
      elif i<=0xffffffff:
          return b'\xfe'+i.to_bytes(4, 'big')
      else:
          return b'\xff'+i.to_bytes(8, 'big')
  \<close>
\<close>

definition var_int :: "int \<Rightarrow> error + bytes" where
  "var_int i =
     (if \<not> 0 \<le> i then Inl AssertionError
      else if i < 0xfd then to_bytes i 1 Big
      else if i \<le> 0xffff then bind_r (to_bytes i 2 Big) (\<lambda>b. Inr (0xfd # b))
      else if i \<le> 0xffffffff then bind_r (to_bytes i 4 Big) (\<lambda>b. Inr (0xfe # b))
      else bind_r (to_bytes i 8 Big) (\<lambda>b. Inr (0xff # b)))"

text \<open>
  \<^verbatim>\<open>
  def op_push(i: int) -> bytes:
      if i < 0x4C:
          return i.to_bytes(1, 'big')
      elif i <= 0xff:
          return b'\x4C'+i.to_bytes(1, 'big')
      elif i <= 0xffff:
          return b'\x4D'+i.to_bytes(2, 'big')
      else:
          return b'\x4E'+i.to_bytes(4, 'big')
  \<close>
\<close>

definition op_push :: "int \<Rightarrow> error + bytes" where
  "op_push i =
     (if i < 0x4C then to_bytes i 1 Big
      else if i \<le> 0xff then bind_r (to_bytes i 1 Big) (\<lambda>b. Inr (0x4C # b))
      else if i \<le> 0xffff then bind_r (to_bytes i 2 Big) (\<lambda>b. Inr (0x4D # b))
      else bind_r (to_bytes i 4 Big) (\<lambda>b. Inr (0x4E # b)))"

text \<open>
  The hash functions and the Base58Check decoder are libraries the proxy imports
  (\<^verbatim>\<open>hashlib.sha256\<close>, \<^verbatim>\<open>sha3.keccak_256\<close>, \<^verbatim>\<open>base58.b58decode_check\<close>), not
  code of the proxy. The model takes them as a parameter, so every theorem below
  holds for whatever functions the libraries compute. \<open>b58decode_check\<close> raises
  \<^verbatim>\<open>ValueError\<close> on a malformed address.
\<close>

record lib =
  sha256 :: "bytes \<Rightarrow> bytes"
  keccak_256 :: "bytes \<Rightarrow> bytes"
  b58decode_check :: "string \<Rightarrow> error + bytes"

text \<open>
  \<^verbatim>\<open>
  def dsha256(b):
      return sha256(sha256(b).digest()).digest()
  \<close>
\<close>

definition dsha256 :: "lib \<Rightarrow> bytes \<Rightarrow> bytes" where
  "dsha256 X b = sha256 X (sha256 X b)"

text \<open>
  \<^verbatim>\<open>
  def merkle_from_txids(txids: List[bytes]):
      if not txids:
          return dsha256(b'')
      if len(txids) == 1:
          return txids[0]
      while len(txids) > 1:
          txids.append(txids[-1])
          txids = list(dsha256(l+r) for l,r in zip(*(iter(txids),)*2))
      return txids[0]
  \<close>
  \<^verbatim>\<open>zip(*(iter(txids),)*2)\<close> draws both components of each pair from one iterator: it
  yields the consecutive pairs and drops a last element that has no partner.
\<close>

fun zip_pairs :: "'a list \<Rightarrow> ('a \<times> 'a) list" where
  "zip_pairs (l # r # xs) = (l, r) # zip_pairs xs"
| "zip_pairs [x] = []"
| "zip_pairs [] = []"

text \<open>One round of the loop body, on a list of length above 1.\<close>

definition merkle_level :: "lib \<Rightarrow> bytes list \<Rightarrow> bytes list" where
  "merkle_level X txids = map (\<lambda>(l, r). dsha256 X (l @ r)) (zip_pairs (txids @ [last txids]))"

lemma length_zip_pairs: "length (zip_pairs xs) = length xs div 2"
  by (induction xs rule: zip_pairs.induct) simp_all

lemma length_merkle_level: "length (merkle_level X txids) = (length txids + 1) div 2"
  by (simp add: merkle_level_def length_zip_pairs)

function merkle_loop :: "lib \<Rightarrow> bytes list \<Rightarrow> bytes list" where
  "merkle_loop X txids = (if 1 < length txids then merkle_loop X (merkle_level X txids) else txids)"
  by pat_completeness auto
termination
  by (relation "measure (\<lambda>(X, txids). length txids)") (auto simp: length_merkle_level)

declare merkle_loop.simps [simp del]

text \<open>
  The call returns the root and leaves the caller's list changed: the first round
  appends to the list object it was given, and every later round works on a list of
  its own. The model returns the root together with the caller's list after the call.
\<close>

definition merkle_from_txids :: "lib \<Rightarrow> bytes list \<Rightarrow> bytes \<times> bytes list" where
  "merkle_from_txids X txids =
     (if txids = [] then (dsha256 X [], txids)
      else if length txids = 1 then (txids ! 0, txids)
      else (merkle_loop X txids ! 0, txids @ [last txids]))"

section \<open>Python's string conversions\<close>

text \<open>
  \<^verbatim>\<open>bytes.fromhex\<close> (Python 3.7 and later): ASCII whitespace is skipped between bytes,
  each byte is two hexadecimal digits, anything else raises \<^verbatim>\<open>ValueError\<close>.
\<close>

definition hex_digit :: "char \<Rightarrow> nat option" where
  "hex_digit c =
     (let n = (of_char c :: nat) in
      if 48 \<le> n \<and> n \<le> 57 then Some (n - 48)
      else if 97 \<le> n \<and> n \<le> 102 then Some (n - 87)
      else if 65 \<le> n \<and> n \<le> 70 then Some (n - 55)
      else None)"

definition is_space :: "char \<Rightarrow> bool" where
  "is_space c = ((of_char c :: nat) \<in> {9, 10, 11, 12, 13, 32})"

fun fromhex :: "string \<Rightarrow> error + bytes" where
  "fromhex [] = Inr []"
| "fromhex (c # cs) =
     (if is_space c then fromhex cs
      else (case cs of
              [] \<Rightarrow> Inl ValueError
            | d # ds \<Rightarrow>
                (case (hex_digit c, hex_digit d) of
                   (Some a, Some b) \<Rightarrow>
                     bind_r (fromhex ds) (\<lambda>bs. Inr (word_of_nat (16 * a + b) # bs))
                 | _ \<Rightarrow> Inl ValueError)))"

text \<open>\<^verbatim>\<open>str(i)\<close> of an integer, and \<^verbatim>\<open>int(s)\<close> of such a string.\<close>

definition digit_char :: "nat \<Rightarrow> char" where
  "digit_char d = char_of (48 + d)"

function str_nat :: "nat \<Rightarrow> string" where
  "str_nat n = (if n < 10 then [digit_char n] else str_nat (n div 10) @ [digit_char (n mod 10)])"
  by pat_completeness auto
termination
  by (relation "measure (\<lambda>n. n)") auto

declare str_nat.simps [simp del]

definition str_int :: "int \<Rightarrow> string" where
  "str_int i = (if i < 0 then CHR ''-'' # str_nat (nat (- i)) else str_nat (nat i))"

definition digit_val :: "char \<Rightarrow> nat option" where
  "digit_val c = (let n = (of_char c :: nat) in if 48 \<le> n \<and> n \<le> 57 then Some (n - 48) else None)"

fun nat_of_digits :: "nat \<Rightarrow> string \<Rightarrow> error + nat" where
  "nat_of_digits acc [] = Inr acc"
| "nat_of_digits acc (c # cs) =
     (case digit_val c of
        None \<Rightarrow> Inl ValueError
      | Some d \<Rightarrow> nat_of_digits (10 * acc + d) cs)"

definition int_of_str :: "string \<Rightarrow> error + int" where
  "int_of_str s =
     (case s of
        [] \<Rightarrow> Inl ValueError
      | c # cs \<Rightarrow>
          if c = CHR ''-'' then
            (if cs = [] then Inl ValueError
             else bind_r (nat_of_digits 0 cs) (\<lambda>n. Inr (- int n)))
          else bind_r (nat_of_digits 0 s) (\<lambda>n. Inr (int n)))"

text \<open>\<^verbatim>\<open>s[-k]\<close> for \<open>k > 0\<close>: the \<open>k\<close>-th character from the end, or \<^verbatim>\<open>IndexError\<close>.\<close>

definition from_end :: "string \<Rightarrow> nat \<Rightarrow> error + char" where
  "from_end s k = (if k = 0 \<or> length s < k then Inl IndexError else Inr (s ! (length s - k)))"

definition endswith :: "string \<Rightarrow> string \<Rightarrow> bool" where
  "endswith s suf = (length suf \<le> length s \<and> drop (length s - length suf) s = suf)"

section \<open>Candidate block builder\<close>

definition KAWPOW_EPOCH_LENGTH :: int where
  "KAWPOW_EPOCH_LENGTH = 7500"

text \<open>
  \<^verbatim>\<open>
  make_height = height.to_bytes(4, 'little')
  while make_height[-1] == 0:
      make_height = make_height[:-1]
  \<close>
  The loop reads the last byte before every round, also of a byte string it has
  emptied: \<^verbatim>\<open>IndexError\<close>.
\<close>

function strip_zeros :: "bytes \<Rightarrow> error + bytes" where
  "strip_zeros b =
     (if b = [] then Inl IndexError
      else if last b = 0 then strip_zeros (butlast b)
      else Inr b)"
  by pat_completeness auto
termination
  by (relation "measure length") auto

declare strip_zeros.simps [simp del]

definition make_height :: "int \<Rightarrow> error + bytes" where
  "make_height height = bind_r (to_bytes height 4 Little) strip_zeros"

text \<open>
  \<^verbatim>\<open>
  bip34_height = bytes([len(make_height)]) + make_height
                 + (bytes.fromhex(flags) if flags else b'\0')
  \<close>
\<close>

definition bip34_height :: "int \<Rightarrow> string \<Rightarrow> error + bytes" where
  "bip34_height height flags =
     bind_r (make_height height) (\<lambda>mh.
     bind_r (if flags \<noteq> [] then fromhex flags else Inr [0]) (\<lambda>fl.
     Inr (word_of_nat (length mh) # mh @ fl)))"

definition arbitrary_data :: bytes where
  "arbitrary_data =
     map (\<lambda>c. word_of_nat (of_char c))
       ''/with a little help from http://github.com/kralverde/ravencoin-stratum-proxy/''"

text \<open>
  \<^verbatim>\<open>build_coinbase_transaction\<close> assigns \<^verbatim>\<open>self.coinbase\<close> and
  \<^verbatim>\<open>self.coinbase_no_wit\<close>; the model returns the pair.
\<close>

definition build_coinbase_transaction ::
  "lib \<Rightarrow> int \<Rightarrow> string \<Rightarrow> string \<Rightarrow> int \<Rightarrow> bytes \<Rightarrow> error + (bytes \<times> bytes)" where
  "build_coinbase_transaction X height flags my_address my_sats witness_commitment =
     bind_r (bip34_height height flags) (\<lambda>bip34.
     bind_r (var_int (int (length bip34 + length arbitrary_data))) (\<lambda>vi.
     let coinbase_txin = replicate 32 0 @ [0xff, 0xff, 0xff, 0xff] @ vi @ bip34
                           @ arbitrary_data @ [0xff, 0xff, 0xff, 0xff] in
     bind_r (b58decode_check X my_address) (\<lambda>decoded.
     let vout1 = [0x76, 0xa9, 0x14] @ drop 1 decoded @ [0x88, 0xac] in
     bind_r (to_bytes 1 4 Little) (\<lambda>one.
     bind_r (to_bytes my_sats 8 Little) (\<lambda>sats.
     bind_r (op_push (int (length vout1))) (\<lambda>push1.
     bind_r (op_push (int (length witness_commitment))) (\<lambda>push2.
     Inr (one @ [0x00, 0x01] @ [0x01] @ coinbase_txin @ [0x02]
            @ sats @ push1 @ vout1
            @ replicate 8 0 @ push2 @ witness_commitment
            @ [0x01, 0x20] @ replicate 32 0 @ replicate 4 0,
          one @ [0x01] @ coinbase_txin @ [0x02]
            @ sats @ push1 @ vout1
            @ replicate 8 0 @ push2 @ witness_commitment
            @ replicate 4 0))))))))"

section \<open>Work state\<close>

type_synonym session = nat

text \<open>
  \<^verbatim>\<open>class TransactionState\<close>: one instance is shared by the synchronizer and every
  session. \<open>transport\<close> is the session object that \<^verbatim>\<open>StratumSession.__init__\<close> stored
  last; attributes that start as \<^verbatim>\<open>None\<close> are options.
\<close>

record transaction_state =
  coinbase :: "bytes option"
  coinbase_no_wit :: "bytes option"
  transport :: "session option"
  transactions :: "bytes list"
  update_counter :: int
  my_address :: "string option"
  merkle :: "bytes option"
  header_hash :: "bytes option"
  seed_hash :: "bytes option"
  last_ts :: "int option"
  partial_header :: "bytes option"
  wait_for_new_block :: bool

definition update_coinbase_every :: int where
  "update_coinbase_every = 10 * 60 * 10"

definition initial_state :: transaction_state where
  "initial_state =
     \<lparr>coinbase = None, coinbase_no_wit = None, transport = None, transactions = [],
      update_counter = update_coinbase_every, my_address = None, merkle = None,
      header_hash = None, seed_hash = None, last_ts = None, partial_header = None,
      wait_for_new_block = False\<rparr>"

text \<open>
  \<^verbatim>\<open>
  def partial_block(self) -> Tuple[bytes, bytes]:
      return self.partial_header[::-1], var_int(len(self.transactions)) + b''.join(self.transactions)
  \<close>
\<close>

definition partial_block :: "transaction_state \<Rightarrow> error + (bytes \<times> bytes)" where
  "partial_block self =
     (case partial_header self of
        None \<Rightarrow> Inl TypeError
      | Some ph \<Rightarrow>
          bind_r (var_int (int (length (transactions self)))) (\<lambda>vi.
          Inr (rev ph, vi @ concat (transactions self))))"

text \<open>
  \<^verbatim>\<open>
  def clear_for_new_height(self):
      # This will trigger updates for everything else
      self.transactions.clear()
  \<close>
\<close>

definition clear_for_new_height :: "transaction_state \<Rightarrow> transaction_state" where
  "clear_for_new_height self = self\<lparr>transactions := []\<rparr>"

text \<open>
  The timestamp rule at the head of \<^verbatim>\<open>update_transactions\<close>:
  \<^verbatim>\<open>
  if str(ts)[-3] == '4':
      ts = int(str(ts)[:-2]+'20')
  if str(ts)[-2] == '6':
      ts = int(str(ts)[:-1]+'9')
  \<close>
\<close>

definition lock_in :: "int \<Rightarrow> error + int" where
  "lock_in ts =
     bind_r (from_end (str_int ts) 3) (\<lambda>c3.
     bind_r (if c3 = CHR ''4''
             then int_of_str (take (length (str_int ts) - 2) (str_int ts) @ ''20'')
             else Inr ts) (\<lambda>ts1.
     bind_r (from_end (str_int ts1) 2) (\<lambda>c2.
     if c2 = CHR ''6'' then int_of_str (butlast (str_int ts1) @ ''9'') else Inr ts1)))"

text \<open>
  \<^verbatim>\<open>
  if str(self.last_ts).endswith(('420', '69')):
      if ts > self.last_ts + 60 * 5:
          self.last_ts = ts
  else:
      self.last_ts = ts
  \<close>
  \<^verbatim>\<open>str(None)\<close> is \<^verbatim>\<open>'None'\<close>.
\<close>

definition str_last_ts :: "int option \<Rightarrow> string" where
  "str_last_ts t = (case t of None \<Rightarrow> ''None'' | Some i \<Rightarrow> str_int i)"

definition hold_on :: "int option \<Rightarrow> int \<Rightarrow> error + int" where
  "hold_on previous ts =
     (if endswith (str_last_ts previous) ''420'' \<or> endswith (str_last_ts previous) ''69'' then
        (case previous of
           None \<Rightarrow> Inl TypeError
         | Some l \<Rightarrow> if l + 60 * 5 < ts then Inr ts else Inr l)
      else Inr ts)"

text \<open>One entry of the template's transaction list: \<^verbatim>\<open>tx_data['data']\<close>, \<^verbatim>\<open>tx_data['txid']\<close>.\<close>

record tx_data =
  data :: string
  txid :: string

text \<open>
  \<^verbatim>\<open>
  for tx_data in incoming_transactions:
      raw_tx_hex = tx_data['data']
      tx_hash = tx_data['txid']
      new_transactions.append(bytes.fromhex(raw_tx_hex))
      transaction_ids.append(bytes.fromhex(tx_hash)[::-1])
  \<close>
  The raw transactions and the ids the loop appends, in order.
\<close>

fun incoming :: "tx_data list \<Rightarrow> error + (bytes list \<times> bytes list)" where
  "incoming [] = Inr ([], [])"
| "incoming (t # ts) =
     bind_r (fromhex (data t)) (\<lambda>raw.
     bind_r (fromhex (txid t)) (\<lambda>tx_hash.
     bind_r (incoming ts) (\<lambda>(raws, ids).
     Inr (raw # raws, rev tx_hash # ids))))"

text \<open>
  \<^verbatim>\<open>
  self.seed_hash = bytes(32)
  for _ in range(height//KAWPOW_EPOCH_LENGTH):
      k = sha3.keccak_256()
      k.update(self.seed_hash)
      self.seed_hash = k.digest()
  \<close>
  The loop, by its count of rounds; \<^verbatim>\<open>range\<close> of a negative number is empty.
\<close>

fun seed_loop :: "lib \<Rightarrow> nat \<Rightarrow> bytes \<Rightarrow> bytes" where
  "seed_loop X 0 seed = seed"
| "seed_loop X (Suc n) seed = seed_loop X n (keccak_256 X seed)"

definition seed_for_height :: "lib \<Rightarrow> int \<Rightarrow> bytes" where
  "seed_for_height X height = seed_loop X (nat (height div KAWPOW_EPOCH_LENGTH)) (replicate 32 0)"

text \<open>
  The branch of \<^verbatim>\<open>update_transactions\<close> under \<^verbatim>\<open># recalculate everything\<close>
  (lines 121 to 146 of the source).
\<close>

definition recalculate ::
  "lib \<Rightarrow> transaction_state \<Rightarrow> int \<Rightarrow> int \<Rightarrow> bytes \<Rightarrow> bytes \<Rightarrow> tx_data list
     \<Rightarrow> error + transaction_state" where
  "recalculate X self version height bits prev_hash incoming_transactions =
     (case (coinbase self, coinbase_no_wit self) of
        (Some cb, Some cnw) \<Rightarrow>
          bind_r (incoming incoming_transactions) (\<lambda>(raws, ids).
          let new_transactions = cb # raws;
              transaction_ids = dsha256 X cnw # ids;
              root = fst (merkle_from_txids X transaction_ids) in
          bind_r (to_bytes height 4 Big) (\<lambda>height_b.
          bind_r (case last_ts self of
                    None \<Rightarrow> Inl AttributeError
                  | Some t \<Rightarrow> to_bytes t 4 Big) (\<lambda>ts_b.
          bind_r (to_bytes version 4 Big) (\<lambda>version_b.
          let header = height_b @ bits @ ts_b @ rev root @ prev_hash @ version_b in
          Inr (self\<lparr>transactions := new_transactions,
                    merkle := Some root,
                    partial_header := Some header,
                    header_hash := Some (rev (dsha256 X (rev header))),
                    seed_hash := Some (seed_for_height X height)\<rparr>)))))
      | _ \<Rightarrow> Inl TypeError)"

text \<open>
  \<^verbatim>\<open>
  def update_transactions(self, new_height, version, height, bits, ts, prev_hash,
                          incoming_transactions, my_sats, witness_commitment, flags):
      if self.wait_for_new_block:
          return True
      ... (the timestamp rule) ...
      self.update_counter += 1
      changed_mine = False
      if self.my_address and (new_height or self.update_counter >= self.update_coinbase_every):
          self.update_counter = 0
          changed_mine = True
          self.build_coinbase_transaction(height, flags, self.my_address, my_sats, witness_commitment)
      if self.my_address and (changed_mine or len(self.transactions) != (len(incoming_transactions) + 1)):
          # recalculate everything
          ...
          return True
      return False
  \<close>
  The result is the returned flag with the state after the call. An exception here
  leaves the synchronizer's loop, and with it the process: the model keeps no state
  for it.
\<close>

definition has_address :: "transaction_state \<Rightarrow> bool" where
  "has_address self = (case my_address self of None \<Rightarrow> False | Some a \<Rightarrow> a \<noteq> [])"

definition update_transactions ::
  "lib \<Rightarrow> transaction_state \<Rightarrow> bool \<Rightarrow> int \<Rightarrow> int \<Rightarrow> bytes \<Rightarrow> int \<Rightarrow> bytes \<Rightarrow> tx_data list
     \<Rightarrow> int \<Rightarrow> bytes \<Rightarrow> string \<Rightarrow> error + (bool \<times> transaction_state)" where
  "update_transactions X self new_height version height bits ts prev_hash
       incoming_transactions my_sats witness_commitment flags =
     (if wait_for_new_block self then Inr (True, self)
      else
        bind_r (lock_in ts) (\<lambda>ts1.
        bind_r (hold_on (last_ts self) ts1) (\<lambda>held.
        let self1 = self\<lparr>last_ts := Some held, update_counter := update_counter self + 1\<rparr> in
        bind_r (if has_address self1
                   \<and> (new_height \<or> update_coinbase_every \<le> update_counter self1)
                then
                  bind_r (build_coinbase_transaction X height flags
                            (case my_address self1 of None \<Rightarrow> [] | Some a \<Rightarrow> a)
                            my_sats witness_commitment) (\<lambda>(cb, cnw).
                  Inr (True, self1\<lparr>update_counter := 0, coinbase := Some cb,
                                   coinbase_no_wit := Some cnw\<rparr>))
                else Inr (False, self1)) (\<lambda>(changed_mine, self2).
        if has_address self2
           \<and> (changed_mine
               \<or> int (length (transactions self2)) \<noteq> int (length incoming_transactions) + 1)
        then
          bind_r (recalculate X self2 version height bits prev_hash incoming_transactions)
            (\<lambda>self3. Inr (True, self3))
        else Inr (False, self2)))))"

section \<open>Stratum session\<close>

text \<open>
  \<^verbatim>\<open>StratumSession.__init__\<close> stores the new session in the shared state:
  \<^verbatim>\<open>tx.transport = self\<close>.
\<close>

definition new_session :: "session \<Rightarrow> transaction_state \<Rightarrow> transaction_state" where
  "new_session sid tx = tx\<lparr>transport := Some sid\<rparr>"

text \<open>\<^verbatim>\<open>mining.subscribe\<close>: \<^verbatim>\<open>return ['00000000', 4]\<close>.\<close>

definition handle_subscribe :: json where
  "handle_subscribe = JArr [JStr ''00000000'', JNum 4]"

text \<open>
  \<^verbatim>\<open>
  async def authorize_handler(*args):
      address = args[0].split('.')[0]
      try:
          if base58.b58decode_check(address)[0] != (111 if self.testnet else 60):
              raise RPCError(1, f'{address} is not a p2pkh address')
      except ValueError:
          raise RPCError(1, f'{address} is not a valid address')
      self.tx.my_address = address
      return True
  \<close>
\<close>

definition authorize_handler ::
  "lib \<Rightarrow> bool \<Rightarrow> transaction_state \<Rightarrow> string \<Rightarrow> (error + bool) \<times> transaction_state" where
  "authorize_handler X testnet tx arg0 =
     (let address = takeWhile (\<lambda>c. c \<noteq> CHR ''.'') arg0 in
      case b58decode_check X address of
        Inl ValueError \<Rightarrow>
          (Inl (RPCError 1 (JStr (address @ '' is not a valid address''))), tx)
      | Inl e \<Rightarrow> (Inl e, tx)
      | Inr [] \<Rightarrow> (Inl IndexError, tx)
      | Inr (v # payload) \<Rightarrow>
          if v \<noteq> (if testnet then 111 else 60)
          then (Inl (RPCError 1 (JStr (address @ '' is not a p2pkh address''))), tx)
          else (Inr True, tx\<lparr>my_address := Some address\<rparr>))"

text \<open>Python's truth value of a decoded JSON value, and \<^verbatim>\<open>dict.get(key, None)\<close>.\<close>

fun truthy :: "json \<Rightarrow> bool" where
  "truthy JNull = False"
| "truthy (JBool b) = b"
| "truthy (JNum n) = (n \<noteq> 0)"
| "truthy (JStr s) = (s \<noteq> [])"
| "truthy (JArr xs) = (xs \<noteq> [])"
| "truthy (JObj kvs) = (kvs \<noteq> [])"

definition json_get :: "(string \<rightharpoonup> json) \<Rightarrow> string \<Rightarrow> json" where
  "json_get d k = (case d k of None \<Rightarrow> JNull | Some v \<Rightarrow> v)"

text \<open>
  The block \<^verbatim>\<open>handle_submit\<close> posts to the node:
  \<^verbatim>\<open>
  temp_block_a, temp_block_b = self.tx.partial_block()
  full_block = temp_block_a + bytes.fromhex(nonce_hex[2:])[::-1]
               + bytes.fromhex(mixhash_hex[2:])[::-1] + temp_block_b
  \<close>
\<close>

definition full_block :: "transaction_state \<Rightarrow> string \<Rightarrow> string \<Rightarrow> error + bytes" where
  "full_block tx nonce_hex mixhash_hex =
     bind_r (partial_block tx) (\<lambda>(temp_block_a, temp_block_b).
     bind_r (fromhex (drop 2 nonce_hex)) (\<lambda>nonce.
     bind_r (fromhex (drop 2 mixhash_hex)) (\<lambda>mixhash.
     Inr (temp_block_a @ rev nonce @ rev mixhash @ temp_block_b))))"

text \<open>
  \<^verbatim>\<open>
  async def handle_submit(*args):
      if self.tx.wait_for_new_block or not self.tx.transactions:
          raise RPCError(1, 'Waiting for next block template')
      worker, job_id, nonce_hex, header_hex, mixhash_hex = args
      ... (full_block) ...
      self.tx.clear_for_new_height()
      async with ClientSession() as session:
          async with session.post(..., data=json.dumps(data)) as resp:
              json_resp = await resp.json()
              if json_resp.get('error', None):
                  self.tx.clear_for_new_height()
                  raise RPCError(1, json_resp['error'])
              if json_resp.get('result', None):
                  self.tx.clear_for_new_height()
                  raise RPCError(1, json_resp['result'])
      self.tx.wait_for_new_block = True
      return True
  \<close>
  \<open>json_resp\<close> is the node's decoded reply to \<^verbatim>\<open>submitblock\<close>. The result is the
  reply to the miner (the returned value or the raised exception) with the shared
  state the handler leaves.
\<close>

definition handle_submit ::
  "transaction_state \<Rightarrow> string \<times> string \<times> string \<times> string \<times> string \<Rightarrow> (string \<rightharpoonup> json)
     \<Rightarrow> (error + bool) \<times> transaction_state" where
  "handle_submit tx args json_resp =
     (case args of (worker, job_id, nonce_hex, header_hex, mixhash_hex) \<Rightarrow>
        if wait_for_new_block tx \<or> transactions tx = []
        then (Inl (RPCError 1 (JStr ''Waiting for next block template'')), tx)
        else
          (case full_block tx nonce_hex mixhash_hex of
             Inl e \<Rightarrow> (Inl e, tx)
           | Inr posted \<Rightarrow>
               let tx1 = clear_for_new_height tx in
               if truthy (json_get json_resp ''error'')
               then (Inl (RPCError 1 (json_get json_resp ''error'')), clear_for_new_height tx1)
               else if truthy (json_get json_resp ''result'')
               then (Inl (RPCError 1 (json_get json_resp ''result'')), clear_for_new_height tx1)
               else (Inr True, tx1\<lparr>wait_for_new_block := True\<rparr>)))"

section \<open>Template synchronizer\<close>

text \<open>The fields of the node's \<^verbatim>\<open>getblocktemplate\<close> result that the loop reads.\<close>

record template =
  t_height :: int
  t_version :: int
  t_bits :: string
  t_previousblockhash :: string
  t_transactions :: "tx_data list"
  t_coinbasevalue :: int
  t_default_witness_commitment :: string
  t_flags :: string
  t_target :: string

text \<open>
  The two notifications of the loop, with their parameters; the header hash and the
  seed hash are carried as bytes (the source sends their \<^verbatim>\<open>.hex()\<close>).
  \<^verbatim>\<open>
  mining.set_target (target,)
  mining.notify ('0', header_hash, seed_hash, target, clear_work, height, bits)
  \<close>
\<close>

datatype notification =
  Set_target string
  | Notify string bytes bytes string bool int string

text \<open>
  One round of \<^verbatim>\<open>query_loop\<close>, from the decoded template \<open>tpl\<close> and the clock
  \<open>now\<close> (\<^verbatim>\<open>int(time.time())\<close>). The loop's state is the shared work state and its
  local \<^verbatim>\<open>height\<close> (\<open>-1\<close> at the start). The result lists what was sent, each
  notification with the session it was sent through.
  \<^verbatim>\<open>
  clear_work = not bool(tx.transactions)
  if height != json_resp['result']['height']:
      clear_work = True
      tx.clear_for_new_height()
      height = json_resp['result']['height']
  should_notify = tx.update_transactions(clear_work, ...)
  if should_notify and tx.transport:
      if clear_work:
          await tx.transport.send_notification('mining.set_target', (target,))
      await tx.transport.send_notification('mining.notify', ('0', tx.header_hash.hex(),
          tx.seed_hash.hex(), target, clear_work, height, bits))
      if clear_work:
          tx.wait_for_new_block = False
  \<close>
\<close>

definition clear_work_of :: "transaction_state \<Rightarrow> int \<Rightarrow> template \<Rightarrow> bool" where
  "clear_work_of tx height tpl = (transactions tx = [] \<or> height \<noteq> t_height tpl)"

text \<open>The block under \<^verbatim>\<open>if should_notify and tx.transport:\<close>.\<close>

definition announce ::
  "bool \<Rightarrow> template \<Rightarrow> int \<Rightarrow> bool \<times> transaction_state
     \<Rightarrow> error + ((session \<times> notification) list \<times> transaction_state \<times> int)" where
  "announce clear_work tpl height updated =
     (case updated of (should_notify, tx) \<Rightarrow>
        (case transport tx of
           None \<Rightarrow> Inr ([], tx, height)
         | Some sid \<Rightarrow>
             if \<not> should_notify then Inr ([], tx, height)
             else
               (case (header_hash tx, seed_hash tx) of
                  (Some hh, Some sh) \<Rightarrow>
                    Inr ((if clear_work then [(sid, Set_target (t_target tpl))] else [])
                           @ [(sid, Notify ''0'' hh sh (t_target tpl) clear_work height
                                 (t_bits tpl))],
                         (if clear_work then tx\<lparr>wait_for_new_block := False\<rparr> else tx),
                         height)
                | _ \<Rightarrow> Inl AttributeError)))"

definition query_loop_round ::
  "lib \<Rightarrow> transaction_state \<times> int \<Rightarrow> template \<Rightarrow> int
     \<Rightarrow> error + ((session \<times> notification) list \<times> transaction_state \<times> int)" where
  "query_loop_round X st tpl now =
     (case st of (tx, height) \<Rightarrow>
        let clear_work = clear_work_of tx height tpl;
            tx1 = (if height \<noteq> t_height tpl then clear_for_new_height tx else tx);
            height1 = (if height \<noteq> t_height tpl then t_height tpl else height) in
        bind_r (fromhex (t_bits tpl)) (\<lambda>bits.
        bind_r (fromhex (t_previousblockhash tpl)) (\<lambda>prev_hash.
        bind_r (fromhex (t_default_witness_commitment tpl)) (\<lambda>witness_commitment.
        bind_r (update_transactions X tx1 clear_work (t_version tpl) (t_height tpl) bits now
                  prev_hash (t_transactions tpl) (t_coinbasevalue tpl) witness_commitment
                  (t_flags tpl))
          (announce clear_work tpl height1)))))"

section \<open>Byte strings as numbers\<close>

text \<open>The number a byte string stands for when read least significant byte first.\<close>

fun le_value :: "bytes \<Rightarrow> nat" where
  "le_value [] = 0"
| "le_value (b # bs) = unat b + 256 * le_value bs"

section \<open>Sample inputs\<close>

text \<open>
  A library instance for the closed examples below: the two hashes prefix a tag byte
  (so they are injective), and the decoder knows the one address the source itself
  names, with its true Base58Check payload (version byte 60). No theorem about the
  proxy depends on it: each is proved for every \<open>X\<close>.
\<close>

definition sample_lib :: lib where
  "sample_lib =
     \<lparr>sha256 = (\<lambda>b. 1 # b), keccak_256 = (\<lambda>b. 2 # b),
      b58decode_check = (\<lambda>a. if a = ''RMbuKtJdFf66Pr31shRZFf7fk3QsgJHbPS''
         then Inr [60, 135, 43, 109, 184, 227, 184, 153, 103, 100, 237, 77, 149, 211, 189, 226, 203, 50, 68, 146, 144]
         else Inl ValueError)\<rparr>"

text \<open>
  A sample run of the proxy. One miner connects and authorizes with the address above;
  the synchronizer polls a template of height 100 with one transaction
  (\<open>sample_round1\<close>, which builds \<open>sample_candidate\<close>); the miner submits a share
  that the node accepts (\<open>sample_locked\<close>); the synchronizer polls the same template
  twice more (\<open>sample_round2\<close>, \<open>sample_round3\<close>). In \<open>sample_round_two\<close> a second
  miner has connected before the first poll.
\<close>

definition sample_address :: string where
  "sample_address = ''RMbuKtJdFf66Pr31shRZFf7fk3QsgJHbPS''"

definition sample_template :: template where
  "sample_template =
     \<lparr>t_height = 100, t_version = 805306368, t_bits = ''1b00f5a4'',
      t_previousblockhash = ''00000000000021a3c5b1f0e4d2a9c8b7a6f5e4d3c2b1a0f9e8d7c6b5a4f3e2d1'',
      t_transactions = [\<lparr>data = ''0100000001abcdef00'',
                          txid = ''4a5e1e4baab89f3a32518a88c31bc87f618f76673e2cc77ab2127b7afdeda33b''\<rparr>],
      t_coinbasevalue = 500000000000,
      t_default_witness_commitment =
        ''6a24aa21a9ede2f61c3f71d1defd3fa999dfa36953755c690689799962b48bebd836974e8cf9'',
      t_flags = '''',
      t_target = ''00000000f5a40000000000000000000000000000000000000000000000000000''\<rparr>"

definition sample_authorized :: transaction_state where
  "sample_authorized =
     snd (authorize_handler sample_lib False (new_session 1 initial_state)
            (sample_address @ ''.miner1''))"

definition sample_round1 ::
  "error + ((session \<times> notification) list \<times> transaction_state \<times> int)" where
  "sample_round1 = query_loop_round sample_lib (sample_authorized, -1) sample_template 1700000000"

definition sample_candidate :: transaction_state where
  "sample_candidate = fst (snd (projr sample_round1))"

definition sample_share :: "string \<times> string \<times> string \<times> string \<times> string" where
  "sample_share =
     (''miner1'', ''0'', ''0x00000000deadbeef'',
      ''0x8f0c3e5d'',
      ''0x1111111111111111111111111111111111111111111111111111111111111111'')"

definition accepted_reply :: "string \<rightharpoonup> json" where
  "accepted_reply = [''result'' \<mapsto> JNull, ''error'' \<mapsto> JNull, ''id'' \<mapsto> JStr ''0'']"

definition sample_locked :: transaction_state where
  "sample_locked = snd (handle_submit sample_candidate sample_share accepted_reply)"

definition sample_round2 ::
  "error + ((session \<times> notification) list \<times> transaction_state \<times> int)" where
  "sample_round2 = query_loop_round sample_lib (sample_locked, 100) sample_template 1700000000"

definition sample_released :: transaction_state where
  "sample_released = fst (snd (projr sample_round2))"

definition sample_round3 ::
  "error + ((session \<times> notification) list \<times> transaction_state \<times> int)" where
  "sample_round3 = query_loop_round sample_lib (sample_released, 100) sample_template 1700000000"

definition sample_rebuilt :: transaction_state where
  "sample_rebuilt = fst (snd (projr sample_round3))"

definition sample_two_sessions :: transaction_state where
  "sample_two_sessions =
     snd (authorize_handler sample_lib False (new_session 2 (new_session 1 initial_state))
            (sample_address @ ''.miner2''))"

definition sample_round_two ::
  "error + ((session \<times> notification) list \<times> transaction_state \<times> int)" where
  "sample_round_two =
     query_loop_round sample_lib (sample_two_sessions, -1) sample_template 1700000000"

section \<open>The specification's notions\<close>

text \<open>
  The error a submit is refused with when there is no work to submit against
  (\<^verbatim>\<open>RPCError(1, 'Waiting for next block template')\<close>).
\<close>

definition no_active_work :: error where
  "no_active_work = RPCError 1 (JStr ''Waiting for next block template'')"

text \<open>
  The stored Merkle root, header hash and seed hash are those of the stored candidate
  at \<open>height\<close>: the root is the Merkle root of the coinbase id and one id for each
  further stored transaction, the header holds that root (reversed) between the
  timestamp and the previous block hash, the header hash is the reversed double hash
  of the reversed header, and the seed hash is that of the height's epoch.
\<close>

definition candidate_consistent :: "lib \<Rightarrow> transaction_state \<Rightarrow> int \<Rightarrow> bool" where
  "candidate_consistent X s height \<longleftrightarrow>
     (\<exists>cnw ids header.
        coinbase_no_wit s = Some cnw
        \<and> length (transactions s) = Suc (length ids)
        \<and> merkle s = Some (fst (merkle_from_txids X (dsha256 X cnw # ids)))
        \<and> partial_header s = Some header
        \<and> (\<exists>height_b bits ts_b prev_hash version_b.
              to_bytes height 4 Big = Inr height_b \<and> length ts_b = 4 \<and> length version_b = 4
              \<and> header = height_b @ bits @ ts_b
                          @ rev (fst (merkle_from_txids X (dsha256 X cnw # ids)))
                          @ prev_hash @ version_b)
        \<and> header_hash s = Some (rev (dsha256 X (rev header)))
        \<and> seed_hash s = Some (seed_for_height X height))"

text \<open>
  The push prefix as the specification words it: one byte below \<open>0x4C\<close>, otherwise a
  marker byte and the length in 1, 2 or 4 little-endian bytes, the smallest that fits.
\<close>

definition encodeScriptPush :: "nat \<Rightarrow> bytes" where
  "encodeScriptPush n =
     (if n < 0x4C then le_digits 1 n
      else if n \<le> 0xff then 0x4C # le_digits 1 n
      else if n \<le> 0xffff then 0x4D # le_digits 2 n
      else 0x4E # le_digits 4 n)"

section \<open>The Merkle root as the specification words it\<close>

text \<open>
  One level: adjacent leaves are replaced by the double hash of their concatenation,
  and a last leaf without a partner is paired with itself.
\<close>

fun pair_up :: "lib \<Rightarrow> bytes list \<Rightarrow> bytes list" where
  "pair_up X (l # r # rest) = dsha256 X (l @ r) # pair_up X rest"
| "pair_up X [l] = [dsha256 X (l @ l)]"
| "pair_up X [] = []"

lemma length_pair_up: "length (pair_up X leaves) = (length leaves + 1) div 2"
  by (induction X leaves rule: pair_up.induct) simp_all

lemma pair_up_eq_Nil: "pair_up X leaves = [] \<longleftrightarrow> leaves = []"
  by (induction X leaves rule: pair_up.induct) simp_all

text \<open>
  Empty input gives the double hash of the empty byte string, a single leaf is
  returned unchanged, anything longer is reduced level by level.
\<close>

function merkleRoot :: "lib \<Rightarrow> bytes list \<Rightarrow> bytes" where
  "merkleRoot X leaves =
     (if leaves = [] then dsha256 X []
      else if length leaves = 1 then hd leaves
      else merkleRoot X (pair_up X leaves))"
  by pat_completeness auto
termination
proof (relation "measure (\<lambda>(X, leaves). length leaves)")
  fix X :: lib and leaves :: "bytes list"
  assume "leaves \<noteq> []" and "length leaves \<noteq> 1"
  then have "1 < length leaves" by (cases leaves) auto
  then have "(length leaves + 1) div 2 < length leaves" by arith
  then show "((X, pair_up X leaves), (X, leaves)) \<in> measure (\<lambda>(X, leaves). length leaves)"
    by (simp add: length_pair_up)
qed simp

declare merkleRoot.simps [simp del]

section \<open>Merkle root: the code computes the specified root\<close>

lemma length_merkle_loop: "txids \<noteq> [] \<Longrightarrow> length (merkle_loop X txids) = 1"
proof (induction X txids rule: merkle_loop.induct)
  case (1 X txids)
  show ?case
  proof (cases "1 < length txids")
    case True
    then have "merkle_level X txids \<noteq> []"
      using length_merkle_level [of X txids] by (cases "merkle_level X txids") auto
    with 1 True show ?thesis by (simp add: merkle_loop.simps [of X txids])
  next
    case False
    with 1 have "length txids = 1" by (cases txids) simp_all
    with False show ?thesis by (simp add: merkle_loop.simps [of X txids])
  qed
qed

lemma merkle_level_pair_up: "txids \<noteq> [] \<Longrightarrow> merkle_level X txids = pair_up X txids"
proof (induction X txids rule: pair_up.induct)
  case (1 X l r rest)
  show ?case
  proof (cases "rest = []")
    case True
    then show ?thesis by (simp add: merkle_level_def)
  next
    case False
    with 1 have "merkle_level X rest = pair_up X rest" by simp
    with False show ?thesis by (simp add: merkle_level_def)
  qed
qed (simp_all add: merkle_level_def)

lemma merkle_loop_root:
  "1 < length txids \<Longrightarrow> merkle_loop X txids ! 0 = merkleRoot X txids"
proof (induction X txids rule: merkle_loop.induct)
  case (1 X txids)
  then have ne: "txids \<noteq> []" by auto
  have lvl: "merkle_level X txids = pair_up X txids"
    using ne by (rule merkle_level_pair_up)
  have unfold_l: "merkle_loop X txids = merkle_loop X (pair_up X txids)"
    using "1.prems" lvl by (simp add: merkle_loop.simps [of X txids])
  have unfold_r: "merkleRoot X txids = merkleRoot X (pair_up X txids)"
    using "1.prems" ne by (simp add: merkleRoot.simps [of X txids])
  have pos: "pair_up X txids \<noteq> []"
    using ne by (simp add: pair_up_eq_Nil)
  show ?case
  proof (cases "1 < length (pair_up X txids)")
    case True
    with 1 lvl have "merkle_loop X (pair_up X txids) ! 0 = merkleRoot X (pair_up X txids)"
      by simp
    with unfold_l unfold_r show ?thesis by simp
  next
    case False
    with pos have one: "length (pair_up X txids) = 1"
      by (cases "pair_up X txids") simp_all
    then have "merkle_loop X (pair_up X txids) = pair_up X txids"
      by (simp add: merkle_loop.simps [of X "pair_up X txids"])
    moreover have "merkleRoot X (pair_up X txids) = hd (pair_up X txids)"
      using one pos by (simp add: merkleRoot.simps [of X "pair_up X txids"])
    ultimately show ?thesis
      using unfold_l unfold_r pos by (simp add: hd_conv_nth)
  qed
qed

text \<open>
  Claim C7. \<open>merkle_from_txids\<close> returns \<open>dsha256\<close> of the empty byte string on the
  empty list and the element itself on a single-element list; on every list its
  result is the root \<open>merkleRoot\<close> that pairs adjacent leaves level by level,
  duplicating the last leaf of a level of odd length, until one value remains.
  (The source appends the last leaf at every level; on a level of even length the
  pairing drops the extra copy.)
\<close>

theorem merkle_from_txids_root:
  "fst (merkle_from_txids X []) = dsha256 X []
   \<and> fst (merkle_from_txids X [x]) = x
   \<and> fst (merkle_from_txids X txids) = merkleRoot X txids"
proof -
  have "fst (merkle_from_txids X txids) = merkleRoot X txids"
  proof (cases "1 < length txids")
    case True
    then have "txids \<noteq> []" and "length txids \<noteq> 1" by auto
    with True show ?thesis
      by (simp add: merkle_from_txids_def merkle_loop_root)
  next
    case False
    then show ?thesis
      by (cases txids) (simp_all add: merkle_from_txids_def merkleRoot.simps)
  qed
  then show ?thesis by (simp add: merkle_from_txids_def)
qed

theorem merkle_from_txids_root_witness:
  "fst (merkle_from_txids sample_lib [[1], [2], [3]]) = merkleRoot sample_lib [[1], [2], [3]]
   \<and> merkleRoot sample_lib [[1], [2], [3]] = [1, 1, 1, 1, 1, 2, 1, 1, 3, 3]"
proof -
  have "merkleRoot sample_lib [[1], [2], [3]] = [1, 1, 1, 1, 1, 2, 1, 1, 3, 3]"
    by (simp add: merkleRoot.simps dsha256_def sample_lib_def)
  then show ?thesis
    using merkle_from_txids_root [of sample_lib "[1]" "[[1], [2], [3]]"] by simp
qed

section \<open>Merkle root: the caller's list\<close>

lemma zip_pairs_append_even:
  "even (length xs) \<Longrightarrow> zip_pairs (xs @ ys) = zip_pairs xs @ zip_pairs ys"
  by (induction xs rule: zip_pairs.induct) simp_all

lemma merkle_level_snoc_odd:
  assumes "odd (length txids)"
  shows "merkle_level X (txids @ [last txids]) = merkle_level X txids"
proof -
  have "even (length (txids @ [last txids]))" using assms by simp
  then have "zip_pairs ((txids @ [last txids]) @ [last txids]) = zip_pairs (txids @ [last txids])"
    by (simp only: zip_pairs_append_even zip_pairs.simps append_Nil2)
  then show ?thesis by (simp add: merkle_level_def)
qed

lemma merkle_level_snoc_even:
  assumes "even (length txids)"
  shows "merkle_level X (txids @ [last txids])
           = merkle_level X txids @ [dsha256 X (last txids @ last txids)]"
proof -
  have "zip_pairs (txids @ [last txids, last txids]) = zip_pairs txids @ [(last txids, last txids)]"
    and "zip_pairs (txids @ [last txids]) = zip_pairs txids"
    using assms by (simp_all add: zip_pairs_append_even)
  then show ?thesis by (simp add: merkle_level_def)
qed

lemma merkle_loop_step:
  "1 < length txids \<Longrightarrow> merkle_loop X txids = merkle_loop X (merkle_level X txids)"
  by (simp add: merkle_loop.simps [of X txids])

lemma second_call_same_root:
  assumes "2 \<le> length txids" and "odd (length txids)"
  shows "fst (merkle_from_txids X (snd (merkle_from_txids X txids)))
           = fst (merkle_from_txids X txids)"
proof -
  from assms(1) have ne: "txids \<noteq> []" "length txids \<noteq> 1" "1 < length txids" by auto
  then have after: "snd (merkle_from_txids X txids) = txids @ [last txids]"
    by (simp add: merkle_from_txids_def)
  have "merkle_loop X (txids @ [last txids]) = merkle_loop X (merkle_level X (txids @ [last txids]))"
    using ne by (simp add: merkle_loop_step)
  also have "\<dots> = merkle_loop X (merkle_level X txids)"
    using assms(2) by (simp add: merkle_level_snoc_odd)
  also have "\<dots> = merkle_loop X txids"
    using ne by (simp add: merkle_loop_step)
  finally show ?thesis
    using ne after by (simp add: merkle_from_txids_def)
qed

lemma merkle_level_eq_Nil: "txids \<noteq> [] \<Longrightarrow> merkle_level X txids \<noteq> []"
  by (simp add: merkle_level_pair_up pair_up_eq_Nil)

lemma merkle_root_unfold:
  assumes "1 < length txids"
  shows "fst (merkle_from_txids X txids) = fst (merkle_from_txids X (merkle_level X txids))"
proof -
  let ?l = "merkle_level X txids"
  from assms have ne: "txids \<noteq> []" "length txids \<noteq> 1" by auto
  have "fst (merkle_from_txids X txids) = merkle_loop X ?l ! 0"
    using assms ne by (simp add: merkle_from_txids_def merkle_loop_step)
  also have "\<dots> = fst (merkle_from_txids X ?l)"
  proof (cases "length ?l = 1")
    case True
    then have "merkle_loop X ?l = ?l" by (simp add: merkle_loop.simps [of X ?l])
    with True ne show ?thesis by (simp add: merkle_from_txids_def merkle_level_eq_Nil)
  next
    case False
    with ne show ?thesis by (simp add: merkle_from_txids_def merkle_level_eq_Nil)
  qed
  finally show ?thesis .
qed

lemma second_call_even_root:
  assumes "2 \<le> length txids" and "even (length txids)"
  shows "fst (merkle_from_txids X (snd (merkle_from_txids X txids)))
           = fst (merkle_from_txids X
                    (merkle_level X txids @ [dsha256 X (last txids @ last txids)]))"
proof -
  from assms(1) have ne: "txids \<noteq> []" "length txids \<noteq> 1" "1 < length txids" by auto
  then have after: "snd (merkle_from_txids X txids) = txids @ [last txids]"
    by (simp add: merkle_from_txids_def)
  have "1 < length (txids @ [last txids])" using ne by simp
  from merkle_root_unfold [OF this, of X] show ?thesis
    using assms(2) after by (simp add: merkle_level_snoc_even)
qed

lemma second_call_same_root_six:
  "fst (merkle_from_txids X (snd (merkle_from_txids X [a, b, c, d, e, e])))
     = fst (merkle_from_txids X [a, b, c, d, e, e])"
  by (simp add: merkle_from_txids_def merkle_loop.simps merkle_level_def)

text \<open>
  Claim C10, amended. \<open>merkle_from_txids\<close> mutates its argument: for every input list
  of length at least 2 the call appends a duplicate of the list's last element to the
  caller's list before the first pairing level, and that is all the caller's list
  gains. The root it returns is the root of its first pairing level. A second call on
  the same list object starts from the longer list: when the original length is odd
  it returns the same root again, and when the original length is even it returns the
  root of the first call's first level followed by one more node, the double hash of
  the last element paired with itself.
\<close>

theorem merkle_from_txids_second_call:
  "2 \<le> length txids \<Longrightarrow>
     snd (merkle_from_txids X txids) = txids @ [last txids]
     \<and> fst (merkle_from_txids X txids) = fst (merkle_from_txids X (merkle_level X txids))
     \<and> (odd (length txids) \<longrightarrow>
          fst (merkle_from_txids X (snd (merkle_from_txids X txids)))
            = fst (merkle_from_txids X txids))
     \<and> (even (length txids) \<longrightarrow>
          fst (merkle_from_txids X (snd (merkle_from_txids X txids)))
            = fst (merkle_from_txids X
                     (merkle_level X txids @ [dsha256 X (last txids @ last txids)])))"
proof -
  assume len: "2 \<le> length txids"
  then have after: "snd (merkle_from_txids X txids) = txids @ [last txids]"
    by (auto simp: merkle_from_txids_def)
  from len have "1 < length txids" by simp
  from merkle_root_unfold [OF this, of X] after
    second_call_same_root [OF len, of X] second_call_even_root [OF len, of X]
  show ?thesis by blast
qed

text \<open>
  On four ids the second call returns another root than the first, the root of the
  three nodes \<open>H(1,2)\<close>, \<open>H(3,4)\<close>, \<open>H(4,4)\<close>; on three ids it returns the same root.
\<close>

theorem merkle_from_txids_second_call_witness:
  "snd (merkle_from_txids sample_lib [[1], [2], [3], [4]]) = [[1], [2], [3], [4], [4]]
   \<and> fst (merkle_from_txids sample_lib [[1], [2], [3], [4]])
       = [1, 1, 1, 1, 1, 2, 1, 1, 3, 4]
   \<and> fst (merkle_from_txids sample_lib (snd (merkle_from_txids sample_lib [[1], [2], [3], [4]])))
       = [1, 1, 1, 1, 1, 1, 1, 2, 1, 1, 3, 4, 1, 1, 1, 1, 4, 4, 1, 1, 4, 4]
   \<and> fst (merkle_from_txids sample_lib (snd (merkle_from_txids sample_lib [[1], [2], [3], [4]])))
       \<noteq> fst (merkle_from_txids sample_lib [[1], [2], [3], [4]])
   \<and> snd (merkle_from_txids sample_lib [[1], [2], [3]]) = [[1], [2], [3], [3]]
   \<and> fst (merkle_from_txids sample_lib (snd (merkle_from_txids sample_lib [[1], [2], [3]])))
       = fst (merkle_from_txids sample_lib [[1], [2], [3]])"
proof -
  have four: "2 \<le> length [[1], [2], [3], [4 :: byte]]" "even (length [[1], [2], [3], [4 :: byte]])"
    and three: "2 \<le> length [[1], [2], [3 :: byte]]" "odd (length [[1], [2], [3 :: byte]])"
    by simp_all
  note even_case = merkle_from_txids_second_call [OF four(1), of sample_lib]
  note odd_case = merkle_from_txids_second_call [OF three(1), of sample_lib]
  have level: "merkle_level sample_lib [[1], [2], [3], [4]] = [[1, 1, 1, 2], [1, 1, 3, 4]]"
    by (simp add: merkle_level_def dsha256_def sample_lib_def)
  have first: "fst (merkle_from_txids sample_lib [[1, 1, 1, 2], [1, 1, 3, 4]])
                 = [1, 1, 1, 1, 1, 2, 1, 1, 3, 4]"
    by (simp add: merkle_from_txids_def merkle_loop.simps merkle_level_def dsha256_def
          sample_lib_def)
  have second: "fst (merkle_from_txids sample_lib
                       ([[1, 1, 1, 2], [1, 1, 3, 4]] @ [dsha256 sample_lib ([4] @ [4])]))
                 = [1, 1, 1, 1, 1, 1, 1, 2, 1, 1, 3, 4, 1, 1, 1, 1, 4, 4, 1, 1, 4, 4]"
    by (simp add: merkle_from_txids_def merkle_loop.simps merkle_level_def dsha256_def
          sample_lib_def)
  from even_case
  have a: "snd (merkle_from_txids sample_lib [[1], [2], [3], [4]]) = [[1], [2], [3], [4], [4]]"
    by simp
  from even_case level first
  have b: "fst (merkle_from_txids sample_lib [[1], [2], [3], [4]])
             = [1, 1, 1, 1, 1, 2, 1, 1, 3, 4]"
    by simp
  from even_case four(2)
  have "fst (merkle_from_txids sample_lib
               (snd (merkle_from_txids sample_lib [[1], [2], [3], [4]])))
          = fst (merkle_from_txids sample_lib
                   (merkle_level sample_lib [[1], [2], [3], [4]]
                      @ [dsha256 sample_lib (last [[1], [2], [3], [4]] @ last [[1], [2], [3], [4]])]))"
    by blast
  also have "\<dots> = [1, 1, 1, 1, 1, 1, 1, 2, 1, 1, 3, 4, 1, 1, 1, 1, 4, 4, 1, 1, 4, 4]"
    using second by (simp add: level)
  finally have c: "fst (merkle_from_txids sample_lib
                          (snd (merkle_from_txids sample_lib [[1], [2], [3], [4]])))
                     = [1, 1, 1, 1, 1, 1, 1, 2, 1, 1, 3, 4, 1, 1, 1, 1, 4, 4, 1, 1, 4, 4]" .
  have differ: "fst (merkle_from_txids sample_lib
                       (snd (merkle_from_txids sample_lib [[1], [2], [3], [4]])))
                  \<noteq> fst (merkle_from_txids sample_lib [[1], [2], [3], [4]])"
    by (simp only: b c) simp
  from odd_case
  have d: "snd (merkle_from_txids sample_lib [[1], [2], [3]]) = [[1], [2], [3], [3]]"
    by simp
  from odd_case three(2)
  have e: "fst (merkle_from_txids sample_lib (snd (merkle_from_txids sample_lib [[1], [2], [3]])))
             = fst (merkle_from_txids sample_lib [[1], [2], [3]])"
    by blast
  from a b c differ d e show ?thesis by blast
qed

text \<open>
  The claim as stated fails on three ids, and on six ids whose last two are equal:
  the second call on the same list returns the root the first call returned, whatever
  the hash function. An odd list only gains a copy that the pairing drops; after the
  even list \<open>a b c d e e\<close> has gained one more \<open>e\<close>, both calls pair up
  \<open>H(a,b)\<close>, \<open>H(c,d)\<close>, \<open>H(e,e)\<close>, \<open>H(e,e)\<close>.
\<close>

theorem second_call_same_root_counterexamples:
  "fst (merkle_from_txids sample_lib (snd (merkle_from_txids sample_lib [[1], [2], [3]])))
     = fst (merkle_from_txids sample_lib [[1], [2], [3]])
   \<and> fst (merkle_from_txids sample_lib
             (snd (merkle_from_txids sample_lib [[1], [2], [3], [4], [5], [5]])))
     = fst (merkle_from_txids sample_lib [[1], [2], [3], [4], [5], [5]])"
proof -
  have "2 \<le> length [[1], [2], [3 :: byte]]" and "odd (length [[1], [2], [3 :: byte]])"
    by simp_all
  from second_call_same_root [OF this, of sample_lib]
    second_call_same_root_six [of sample_lib "[1]" "[2]" "[3]" "[4]" "[5]"]
  show ?thesis by blast
qed

section \<open>Script push prefix\<close>

lemma unat_byte: "unat (word_of_nat (v mod 256) :: byte) = v mod 256"
  by (simp add: unat_of_nat)

lemma le_value_le_digits: "le_value (le_digits k v) = v mod 256 ^ k"
proof (induction k arbitrary: v)
  case 0
  show ?case by simp
next
  case (Suc k)
  have "v mod 256 + 256 * (v div 256 mod 256 ^ k) = v mod (256 * 256 ^ k)"
    by (simp add: mod_mult2_eq)
  with Suc show ?case by (simp add: unat_byte)
qed

lemma length_le_digits: "length (le_digits k v) = k"
  by (induction k arbitrary: v) simp_all

lemma length_to_bytes: "to_bytes i k order = Inr b \<Longrightarrow> length b = k"
  by (cases order) (auto simp: to_bytes_def length_le_digits split: if_splits)

lemma to_bytes_value:
  "0 \<le> i \<Longrightarrow> i < 256 ^ k \<Longrightarrow>
     to_bytes i k Big = Inr (rev (le_digits k (nat i)))
     \<and> to_bytes i k Little = Inr (le_digits k (nat i))"
  by (simp add: to_bytes_def)

lemma le_digits_numeral:
  "le_digits (numeral k) v = word_of_nat (v mod 256) # le_digits (pred_numeral k) (v div 256)"
  by (simp add: numeral_eq_Suc [of k])

lemmas to_bytes_eval = to_bytes_def le_digits_numeral bind_r_def

text \<open>
  What \<open>op_push\<close> returns on every integer. Up to \<open>0xFF\<close> it is the prefix the
  specification words; from \<open>0x100\<close> on the length bytes after the marker are those
  of the specification in reverse order, most significant byte first; outside
  \<open>0 .. 0xFFFFFFFF\<close> the call raises \<^verbatim>\<open>OverflowError\<close>.
\<close>

lemma op_push_result:
  "(0 \<le> n \<and> n \<le> 0xff \<longrightarrow> op_push n = Inr (encodeScriptPush (nat n)))
   \<and> (0xff < n \<and> n \<le> 0xffff \<longrightarrow>
        op_push n = Inr (0x4D # rev (le_digits 2 (nat n)))
        \<and> encodeScriptPush (nat n) = 0x4D # le_digits 2 (nat n))
   \<and> (0xffff < n \<and> n \<le> 0xffffffff \<longrightarrow>
        op_push n = Inr (0x4E # rev (le_digits 4 (nat n)))
        \<and> encodeScriptPush (nat n) = 0x4E # le_digits 4 (nat n))
   \<and> (n < 0 \<or> 0xffffffff < n \<longrightarrow> op_push n = Inl OverflowError)"
proof -
  have one: "op_push n = Inr (encodeScriptPush (nat n))" if "0 \<le> n" "n \<le> 0xff"
    using that to_bytes_value [of n 1]
    by (auto simp: op_push_def bind_r_def encodeScriptPush_def)
  have two: "op_push n = Inr (0x4D # rev (le_digits 2 (nat n)))
             \<and> encodeScriptPush (nat n) = 0x4D # le_digits 2 (nat n)"
    if "0xff < n" "n \<le> 0xffff"
    using that to_bytes_value [of n 2]
    by (auto simp: op_push_def bind_r_def encodeScriptPush_def)
  have four: "op_push n = Inr (0x4E # rev (le_digits 4 (nat n)))
              \<and> encodeScriptPush (nat n) = 0x4E # le_digits 4 (nat n)"
    if "0xffff < n" "n \<le> 0xffffffff"
    using that to_bytes_value [of n 4]
    by (auto simp: op_push_def bind_r_def encodeScriptPush_def)
  have over: "op_push n = Inl OverflowError" if "n < 0 \<or> 0xffffffff < n"
    using that by (auto simp: op_push_def bind_r_def to_bytes_def)
  show ?thesis using one two four over by blast
qed

text \<open>
  Claim C8. At \<open>n = 0x100\<close> the code returns the marker \<open>4D\<close> followed by \<open>01 00\<close>,
  the length with its most significant byte first (\<^verbatim>\<open>i.to_bytes(2, 'big')\<close>), where
  the claim has the two little-endian bytes \<open>00 01\<close>; read as little-endian the bytes
  returned stand for the length 1. It is the same with four bytes at \<open>n = 0x12345\<close>.
  Up to \<open>0xFF\<close> a single length byte has no order and the two agree.
\<close>

theorem op_push_byte_order:
  "op_push 0x100 = Inr [0x4D, 0x01, 0x00] \<and> encodeScriptPush 0x100 = [0x4D, 0x00, 0x01]
   \<and> le_value [0x00, 0x01] = 0x100 \<and> le_value [0x01, 0x00] = 1
   \<and> op_push 0x12345 = Inr [0x4E, 0x00, 0x01, 0x23, 0x45]
   \<and> encodeScriptPush 0x12345 = [0x4E, 0x45, 0x23, 0x01, 0x00]
   \<and> op_push 0xff = Inr [0x4C, 0xff] \<and> encodeScriptPush 0xff = [0x4C, 0xff]"
  by (simp add: op_push_def to_bytes_eval encodeScriptPush_def)

section \<open>Coinbase height encoding\<close>

lemma strip_zeros_result:
  "strip_zeros b = Inr r \<Longrightarrow> r \<noteq> [] \<and> last r \<noteq> 0 \<and> (\<exists>k. b = r @ replicate k 0)"
proof (induction b rule: strip_zeros.induct)
  case (1 b)
  show ?case
  proof (cases "b = []")
    case True
    with "1.prems" show ?thesis by (simp add: strip_zeros.simps [of "[]"])
  next
    case False
    show ?thesis
    proof (cases "last b = 0")
      case True
      with False "1.prems" have "strip_zeros (butlast b) = Inr r"
        by (simp add: strip_zeros.simps [of b])
      with 1 False True obtain k where k: "r \<noteq> []" "last r \<noteq> 0" "butlast b = r @ replicate k 0"
        by blast
      from False True have "b = butlast b @ [0]"
        by (metis append_butlast_last_id)
      with k(3) have "b = r @ replicate (Suc k) 0"
        by (simp add: replicate_append_same)
      with k show ?thesis by blast
    next
      case nz: False
      with False "1.prems" have "r = b" by (simp add: strip_zeros.simps [of b])
      with False nz have "r \<noteq> [] \<and> last r \<noteq> 0 \<and> b = r @ replicate 0 0" by simp
      then show ?thesis by blast
    qed
  qed
qed

lemma strip_zeros_zeros: "strip_zeros (replicate k 0) = Inl IndexError"
proof (induction k)
  case 0
  show ?case by (simp add: strip_zeros.simps)
next
  case (Suc k)
  have "replicate (Suc k) (0 :: byte) = replicate k 0 @ [0]"
    by (simp add: replicate_append_same)
  then have "strip_zeros (replicate (Suc k) 0) = strip_zeros (replicate k 0)"
    by (simp add: strip_zeros.simps [of "replicate k 0 @ [0]"])
  with Suc show ?case by simp
qed

lemma strip_zeros_total:
  "strip_zeros b = Inl IndexError \<or> (\<exists>r. strip_zeros b = Inr r)"
proof (induction b rule: strip_zeros.induct)
  case (1 b)
  then show ?case by (simp add: strip_zeros.simps [of b])
qed

lemma le_value_append:
  "le_value (xs @ ys) = le_value xs + 256 ^ length xs * le_value ys"
  by (induction xs) (simp_all add: algebra_simps)

lemma le_value_zeros: "le_value (replicate k 0) = 0"
  by (induction k) simp_all

lemma le_value_less: "le_value b < 256 ^ length b"
proof (induction b)
  case Nil
  show ?case by simp
next
  case (Cons x b)
  have "unat x < 256" using unsigned_less [of x, where ?'a = nat] by simp
  with Cons show ?case by simp
qed

lemma le_value_lower:
  assumes "r \<noteq> []" and "last r \<noteq> 0"
  shows "256 ^ (length r - 1) \<le> le_value r"
proof -
  from assms(1) have r: "r = butlast r @ [last r]" by simp
  have "0 < unat (last r)" using assms(2) by (simp add: unat_gt_0)
  then have "256 ^ length (butlast r) * 1 \<le> 256 ^ length (butlast r) * unat (last r)"
    by (intro mult_le_mono2) simp
  also have "\<dots> \<le> le_value (butlast r @ [last r])"
    by (simp add: le_value_append)
  finally show ?thesis using r by simp
qed

lemma minimal_length:
  assumes "r \<noteq> []" and "last r \<noteq> 0" and "le_value b = le_value r"
  shows "length r \<le> length b"
proof -
  have "(256 :: nat) ^ (length r - 1) \<le> le_value r"
    using assms(1, 2) by (rule le_value_lower)
  moreover have "le_value b < 256 ^ length b"
    by (rule le_value_less)
  ultimately have "(256 :: nat) ^ (length r - 1) < 256 ^ length b"
    using assms(3) by linarith
  then have "length r - 1 < length b" by simp
  with assms(1) show ?thesis by (cases r) simp_all
qed

lemma make_height_ok:
  assumes "1 \<le> h" and "h < 2 ^ 32"
  shows "\<exists>mh. make_height h = Inr mh \<and> mh \<noteq> [] \<and> last mh \<noteq> 0 \<and> length mh \<le> 4
              \<and> le_value mh = nat h"
proof -
  from assms have range: "\<not> (h < 0 \<or> 256 ^ 4 \<le> h)" by simp
  let ?d = "le_digits 4 (nat h)"
  from assms have "nat h < 256 ^ 4" by simp
  then have val: "le_value ?d = nat h" by (simp add: le_value_le_digits)
  have mk: "make_height h = strip_zeros ?d"
    using range by (simp add: make_height_def to_bytes_def bind_r_def del: le_digits.simps)
  consider "strip_zeros ?d = Inl IndexError" | r where "strip_zeros ?d = Inr r"
    using strip_zeros_total [of ?d] by blast
  then show ?thesis
  proof cases
    case 1
    have "\<exists>k. ?d = replicate k 0 \<Longrightarrow> False"
    proof -
      assume "\<exists>k. ?d = replicate k 0"
      then obtain k where "?d = replicate k 0" by blast
      then have "le_value ?d = 0" by (simp only: le_value_zeros)
      with val assms(1) show False by simp
    qed
    moreover have "\<exists>k. b = replicate k 0" if "strip_zeros b = Inl IndexError" for b
      using that
    proof (induction b rule: strip_zeros.induct)
      case (1 b)
      show ?case
      proof (cases "b = []")
        case True
        then have "b = replicate 0 0" by simp
        then show ?thesis by blast
      next
        case False
        with "1.prems" have z: "last b = 0"
          by (simp add: strip_zeros.simps [of b] split: if_splits)
        with False "1.prems" have "strip_zeros (butlast b) = Inl IndexError"
          by (simp add: strip_zeros.simps [of b])
        with 1 False z obtain k where "butlast b = replicate k 0" by blast
        moreover from False z have "b = butlast b @ [0]" by (metis append_butlast_last_id)
        ultimately have "b = replicate (Suc k) 0" by (simp add: replicate_append_same)
        then show ?thesis by blast
      qed
    qed
    ultimately show ?thesis using 1 by blast
  next
    case (2 r)
    from strip_zeros_result [OF 2] obtain k
      where r: "r \<noteq> []" "last r \<noteq> 0" "?d = r @ replicate k 0" by blast
    from r(3) have "le_value ?d = le_value r"
      by (simp only: le_value_append le_value_zeros)
    with val have "le_value r = nat h" by simp
    moreover from r(3) have "length r \<le> 4"
      using length_le_digits [of 4 "nat h"] by (metis le_add1 length_append)
    ultimately show ?thesis using 2 mk r by simp
  qed
qed

text \<open>
  From height 1 to \<open>2^32 - 1\<close> the height encoding is a length byte followed by the
  smallest little-endian byte string that represents the height (the four
  little-endian bytes with the trailing zero bytes stripped; it is never empty and
  nothing is padded back), followed by the flags bytes, or by one zero byte when the
  template gives no flags.
\<close>

lemma bip34_height_encoding:
  assumes "1 \<le> h" and "h < 2 ^ 32"
  shows "\<exists>mh. make_height h = Inr mh
              \<and> le_value mh = nat h \<and> mh \<noteq> [] \<and> last mh \<noteq> 0
              \<and> (\<forall>b. le_value b = nat h \<longrightarrow> length mh \<le> length b)
              \<and> bip34_height h flags
                  = bind_r (if flags \<noteq> [] then fromhex flags else Inr [0])
                      (\<lambda>fl. Inr (word_of_nat (length mh) # mh @ fl))"
proof -
  from make_height_ok [OF assms] obtain mh
    where mh: "make_height h = Inr mh" "mh \<noteq> []" "last mh \<noteq> 0" "le_value mh = nat h"
    by blast
  have "\<forall>b. le_value b = nat h \<longrightarrow> length mh \<le> length b"
    using minimal_length [OF mh(2, 3)] mh(4) by simp
  moreover have "bip34_height h flags
                  = bind_r (if flags \<noteq> [] then fromhex flags else Inr [0])
                      (\<lambda>fl. Inr (word_of_nat (length mh) # mh @ fl))"
    using mh(1) by (simp add: bip34_height_def bind_r_def)
  ultimately show ?thesis using mh by blast
qed

text \<open>
  Claim C4. At height 0 the four little-endian bytes are all zero; the stripping loop
  of \<open>build_coinbase_transaction\<close> removes all four and then reads the last byte of
  the empty string, so the call raises \<^verbatim>\<open>IndexError\<close> and no coinbase is built, where
  the claim has a single zero byte. Nothing pads an empty height back: the zero byte
  the code appends stands for missing flags, after a height that is never empty.
  Height 255 encodes as \<open>01 FF\<close>, as claimed, and height 1 as \<open>01 01\<close>.
\<close>

theorem make_height_zero:
  "make_height 0 = Inl IndexError \<and> bip34_height 0 [] = Inl IndexError
   \<and> build_coinbase_transaction sample_lib 0 [] ''RMbuKtJdFf66Pr31shRZFf7fk3QsgJHbPS''
        500000000000 [] = Inl IndexError
   \<and> make_height 1 = Inr [0x01] \<and> bip34_height 1 [] = Inr [0x01, 0x01, 0x00]
   \<and> make_height 255 = Inr [0xff] \<and> bip34_height 255 [] = Inr [0x01, 0xff, 0x00]"
  by (simp add: build_coinbase_transaction_def bip34_height_def make_height_def to_bytes_eval
        strip_zeros.simps)

section \<open>Work state: rebuilding and the submission lock\<close>

lemma incoming_lengths:
  "incoming txs = Inr (raws, ids) \<Longrightarrow> length raws = length txs \<and> length ids = length txs"
proof (induction txs arbitrary: raws ids)
  case Nil
  then show ?case by simp
next
  case (Cons t txs)
  then show ?case
    by (auto simp: bind_r_def split: sum.splits prod.splits)
qed

lemma recalculate_result:
  assumes "recalculate X s version height bits prev_hash txs = Inr s'"
  shows "\<exists>cb cnw raws ids height_b t ts_b version_b.
           coinbase s = Some cb \<and> coinbase_no_wit s = Some cnw
           \<and> incoming txs = Inr (raws, ids)
           \<and> to_bytes height 4 Big = Inr height_b
           \<and> last_ts s = Some t \<and> to_bytes t 4 Big = Inr ts_b
           \<and> to_bytes version 4 Big = Inr version_b
           \<and> s' = s\<lparr>transactions := cb # raws,
                    merkle := Some (fst (merkle_from_txids X (dsha256 X cnw # ids))),
                    partial_header :=
                      Some (height_b @ bits @ ts_b
                            @ rev (fst (merkle_from_txids X (dsha256 X cnw # ids)))
                            @ prev_hash @ version_b),
                    header_hash :=
                      Some (rev (dsha256 X (rev (height_b @ bits @ ts_b
                            @ rev (fst (merkle_from_txids X (dsha256 X cnw # ids)))
                            @ prev_hash @ version_b)))),
                    seed_hash := Some (seed_for_height X height)\<rparr>"
  using assms
  by (auto simp: recalculate_def bind_r_def Let_def
           split: option.splits sum.splits prod.splits)

lemma recalculate_consistent:
  assumes "recalculate X s version height bits prev_hash txs = Inr s'"
  shows "candidate_consistent X s' height"
proof -
  from recalculate_result [OF assms] obtain cb cnw raws ids height_b t ts_b version_b
    where r: "coinbase_no_wit s = Some cnw" "incoming txs = Inr (raws, ids)"
      "to_bytes height 4 Big = Inr height_b" "to_bytes t 4 Big = Inr ts_b"
      "to_bytes version 4 Big = Inr version_b"
      "s' = s\<lparr>transactions := cb # raws,
               merkle := Some (fst (merkle_from_txids X (dsha256 X cnw # ids))),
               partial_header :=
                 Some (height_b @ bits @ ts_b
                       @ rev (fst (merkle_from_txids X (dsha256 X cnw # ids)))
                       @ prev_hash @ version_b),
               header_hash :=
                 Some (rev (dsha256 X (rev (height_b @ bits @ ts_b
                       @ rev (fst (merkle_from_txids X (dsha256 X cnw # ids)))
                       @ prev_hash @ version_b)))),
               seed_hash := Some (seed_for_height X height)\<rparr>"
    by blast
  have len: "length raws = length ids"
    using incoming_lengths [OF r(2)] by simp
  have four: "length ts_b = 4" "length version_b = 4"
    using r(4, 5) by (simp_all add: length_to_bytes)
  show ?thesis
    unfolding candidate_consistent_def
    apply (rule exI [of _ cnw], rule exI [of _ ids])
    apply (rule exI [of _ "height_b @ bits @ ts_b
                       @ rev (fst (merkle_from_txids X (dsha256 X cnw # ids)))
                       @ prev_hash @ version_b"])
    using r(1, 3, 6) len four by auto
qed

lemma update_transactions_cases:
  assumes "update_transactions X s new_height version height bits ts prev_hash txs
             my_sats witness_commitment flags = Inr (r, s')"
    and "\<not> wait_for_new_block s"
  shows "(\<not> r \<and> (\<exists>held. s' = s\<lparr>last_ts := Some held, update_counter := update_counter s + 1\<rparr>)
            \<and> \<not> (has_address s
                   \<and> (new_height \<or> update_coinbase_every \<le> update_counter s + 1
                       \<or> int (length (transactions s)) \<noteq> int (length txs) + 1)))
         \<or> (r \<and> has_address s
             \<and> (new_height \<or> update_coinbase_every \<le> update_counter s + 1
                 \<or> int (length (transactions s)) \<noteq> int (length txs) + 1)
             \<and> (\<exists>s2. recalculate X s2 version height bits prev_hash txs = Inr s'
                      \<and> transport s2 = transport s
                      \<and> wait_for_new_block s2 = wait_for_new_block s
                      \<and> my_address s2 = my_address s))"
  using assms
  by (auto simp: update_transactions_def bind_r_def Let_def has_address_def
           split: sum.splits prod.splits if_splits)

lemma recalculate_fields:
  assumes "recalculate X s version height bits prev_hash txs = Inr s'"
  shows "transport s' = transport s \<and> wait_for_new_block s' = wait_for_new_block s
         \<and> my_address s' = my_address s
         \<and> (\<exists>hh. header_hash s' = Some hh) \<and> seed_hash s' = Some (seed_for_height X height)
         \<and> length (transactions s') = Suc (length txs)"
proof -
  from recalculate_result [OF assms] obtain cb raws ids hh m ph
    where "incoming txs = Inr (raws, ids)"
      and "s' = s\<lparr>transactions := cb # raws, merkle := Some m, partial_header := Some ph,
                   header_hash := Some hh, seed_hash := Some (seed_for_height X height)\<rparr>"
    by blast
  then show ?thesis using incoming_lengths [of txs raws ids] by simp
qed

lemma submit_guard:
  "wait_for_new_block tx \<or> transactions tx = [] \<Longrightarrow>
     handle_submit tx args json_resp = (Inl no_active_work, tx)"
  by (cases args) (auto simp: handle_submit_def no_active_work_def)

lemma submit_accepted_state:
  "\<not> wait_for_new_block tx \<Longrightarrow> transactions tx \<noteq> [] \<Longrightarrow>
   full_block tx nonce_hex mixhash_hex = Inr posted \<Longrightarrow>
   \<not> truthy (json_get json_resp ''error'') \<Longrightarrow> \<not> truthy (json_get json_resp ''result'') \<Longrightarrow>
     handle_submit tx (worker, job_id, nonce_hex, header_hex, mixhash_hex) json_resp
       = (Inr True, tx\<lparr>transactions := [], wait_for_new_block := True\<rparr>)"
  by (simp add: handle_submit_def clear_for_new_height_def)

lemma submit_success_state:
  assumes "handle_submit tx args json_resp = (Inr True, tx')"
  shows "tx' = tx\<lparr>transactions := [], wait_for_new_block := True\<rparr>"
  using assms
  by (cases args)
     (auto simp: handle_submit_def clear_for_new_height_def Let_def
           split: if_splits sum.splits)

lemma submit_frame:
  assumes "handle_submit tx args json_resp = (reply, tx')"
  shows "merkle tx' = merkle tx \<and> header_hash tx' = header_hash tx
         \<and> seed_hash tx' = seed_hash tx \<and> partial_header tx' = partial_header tx
         \<and> coinbase_no_wit tx' = coinbase_no_wit tx
         \<and> (tx' = tx \<or> transactions tx' = [])"
  using assms
  by (cases args)
     (auto simp: handle_submit_def clear_for_new_height_def Let_def
           split: if_splits sum.splits)

lemma full_block_ok:
  assumes "partial_header tx = Some header" and "length (transactions tx) < 253"
    and "fromhex (drop 2 nonce_hex) = Inr nonce" and "fromhex (drop 2 mixhash_hex) = Inr mixhash"
  shows "\<exists>posted. full_block tx nonce_hex mixhash_hex = Inr posted"
  using assms
  by (simp add: full_block_def partial_block_def var_int_def to_bytes_def bind_r_def)

lemma update_transactions_under_lock:
  "wait_for_new_block self \<Longrightarrow>
     update_transactions X self new_height version height bits ts prev_hash
       incoming_transactions my_sats witness_commitment flags = Inr (True, self)"
  by (simp add: update_transactions_def)

lemma round_under_lock:
  assumes "wait_for_new_block tx"
    and "fromhex (t_bits tpl) = Inr b1" and "fromhex (t_previousblockhash tpl) = Inr b2"
    and "fromhex (t_default_witness_commitment tpl) = Inr b3"
    and "transport tx = Some sid" and "header_hash tx = Some hh" and "seed_hash tx = Some sh"
  shows "query_loop_round X (tx, h) tpl now
           = Inr ((if clear_work_of tx h tpl then [(sid, Set_target (t_target tpl))] else [])
                    @ [(sid, Notify ''0'' hh sh (t_target tpl) (clear_work_of tx h tpl)
                              (t_height tpl) (t_bits tpl))],
                  tx\<lparr>transactions := (if h \<noteq> t_height tpl then [] else transactions tx),
                      wait_for_new_block := \<not> clear_work_of tx h tpl\<rparr>,
                  t_height tpl)"
  using assms
  by (simp add: query_loop_round_def announce_def update_transactions_under_lock
        clear_for_new_height_def bind_r_def Let_def clear_work_of_def)

lemma bind_r_Inr: "bind_r m f = Inr y \<longleftrightarrow> (\<exists>x. m = Inr x \<and> f x = Inr y)"
  by (cases m) (simp_all add: bind_r_def)

lemma round_steps:
  assumes "query_loop_round X (tx, height) tpl now = Inr result"
  shows "\<exists>bits prev_hash wc updated.
           update_transactions X
               (if height \<noteq> t_height tpl then clear_for_new_height tx else tx)
               (clear_work_of tx height tpl) (t_version tpl) (t_height tpl) bits now prev_hash
               (t_transactions tpl) (t_coinbasevalue tpl) wc (t_flags tpl) = Inr updated
           \<and> announce (clear_work_of tx height tpl) tpl (t_height tpl) updated = Inr result"
proof -
  have "(if height \<noteq> t_height tpl then t_height tpl else height) = t_height tpl" by simp
  with assms show ?thesis
    by (auto simp: query_loop_round_def Let_def bind_r_Inr) blast+
qed

lemma announce_result:
  assumes "announce cw tpl h (should_notify, tx) = Inr (notes, tx', h')"
  shows "h' = h
         \<and> (transport tx = None \<or> \<not> should_notify \<longrightarrow> notes = [] \<and> tx' = tx)
         \<and> (\<forall>sid. transport tx = Some sid \<and> should_notify \<longrightarrow>
               (\<exists>hh sh. header_hash tx = Some hh \<and> seed_hash tx = Some sh
                  \<and> notes = (if cw then [(sid, Set_target (t_target tpl))] else [])
                             @ [(sid, Notify ''0'' hh sh (t_target tpl) cw h (t_bits tpl))]
                  \<and> tx' = (if cw then tx\<lparr>wait_for_new_block := False\<rparr> else tx)))"
  using assms
  by (auto simp: announce_def split: option.splits if_splits)

lemma round_keeps_no_work:
  assumes "query_loop_round X (tx, h) tpl now = Inr (notes, tx', h')"
    and "wait_for_new_block tx" and "transactions tx = []"
  shows "transactions tx' = []"
proof -
  define tx1 where "tx1 = (if h \<noteq> t_height tpl then clear_for_new_height tx else tx)"
  have tx1: "wait_for_new_block tx1" "transactions tx1 = []"
    using assms(2, 3) by (simp_all add: tx1_def clear_for_new_height_def)
  from round_steps [OF assms(1)]
  have ann: "announce (clear_work_of tx h tpl) tpl (t_height tpl) (True, tx1) = Inr (notes, tx', h')"
    using update_transactions_under_lock [OF tx1(1)] by (auto simp: tx1_def)
  from announce_result [OF ann] tx1(2) show ?thesis
    by (cases "transport tx1") (auto split: if_splits)
qed

lemma round_rebuild:
  assumes round: "query_loop_round X (tx, height) tpl now = Inr (notes, tx', height')"
    and unlocked: "\<not> wait_for_new_block tx" and addr: "has_address tx"
    and stale: "clear_work_of tx height tpl
                \<or> update_coinbase_every \<le> update_counter tx + 1
                \<or> length (transactions tx) \<noteq> length (t_transactions tpl) + 1"
  shows "height' = t_height tpl \<and> candidate_consistent X tx' (t_height tpl)
         \<and> length (transactions tx') = Suc (length (t_transactions tpl))
         \<and> (transport tx = None \<longrightarrow> notes = [])
         \<and> (\<forall>sid. transport tx = Some sid \<longrightarrow>
               (\<exists>hh sh. header_hash tx' = Some hh \<and> seed_hash tx' = Some sh
                  \<and> notes = (if clear_work_of tx height tpl
                              then [(sid, Set_target (t_target tpl))] else [])
                             @ [(sid, Notify ''0'' hh sh (t_target tpl)
                                        (clear_work_of tx height tpl) (t_height tpl)
                                        (t_bits tpl))]))"
proof -
  define tx1 where "tx1 = (if height \<noteq> t_height tpl then clear_for_new_height tx else tx)"
  define cw where "cw = clear_work_of tx height tpl"
  from round_steps [OF round] obtain bits prev_hash wc should_notify tx2
    where upd: "update_transactions X tx1 cw (t_version tpl) (t_height tpl) bits now prev_hash
                  (t_transactions tpl) (t_coinbasevalue tpl) wc (t_flags tpl)
                = Inr (should_notify, tx2)"
      and ann: "announce cw tpl (t_height tpl) (should_notify, tx2) = Inr (notes, tx', height')"
    unfolding tx1_def cw_def by (metis surj_pair)
  have tx1: "\<not> wait_for_new_block tx1" "has_address tx1" "transport tx1 = transport tx"
    "update_counter tx1 = update_counter tx"
    using unlocked addr by (simp_all add: tx1_def clear_for_new_height_def has_address_def)
  have stale1: "cw \<or> update_coinbase_every \<le> update_counter tx1 + 1
                \<or> int (length (transactions tx1)) \<noteq> int (length (t_transactions tpl)) + 1"
  proof (cases cw)
    case True
    then show ?thesis by simp
  next
    case False
    then have "tx1 = tx" by (simp add: tx1_def cw_def clear_work_of_def)
    with stale False tx1(4) show ?thesis by (auto simp: cw_def)
  qed
  from update_transactions_cases [OF upd tx1(1)] tx1(2) stale1 obtain s2
    where s2: "should_notify" "recalculate X s2 (t_version tpl) (t_height tpl) bits prev_hash
                 (t_transactions tpl) = Inr tx2"
      "transport s2 = transport tx1" "wait_for_new_block s2 = wait_for_new_block tx1"
    by auto
  from recalculate_fields [OF s2(2)] obtain hh
    where f: "transport tx2 = transport tx" "\<not> wait_for_new_block tx2"
      "header_hash tx2 = Some hh" "seed_hash tx2 = Some (seed_for_height X (t_height tpl))"
      "length (transactions tx2) = Suc (length (t_transactions tpl))"
    using s2(3, 4) tx1(1, 3) by auto
  have cons2: "candidate_consistent X tx2 (t_height tpl)"
    using s2(2) by (rule recalculate_consistent)
  have same: "candidate_consistent X (tx2\<lparr>wait_for_new_block := False\<rparr>) (t_height tpl)"
    using cons2 by (simp add: candidate_consistent_def)
  note res = announce_result [OF ann]
  show ?thesis
  proof (cases "transport tx")
    case None
    with res f(1) cons2 f(5) show ?thesis by auto
  next
    case (Some sid)
    with res f s2(1) have
      "notes = (if cw then [(sid, Set_target (t_target tpl))] else [])
                 @ [(sid, Notify ''0'' hh (seed_for_height X (t_height tpl)) (t_target tpl) cw
                            (t_height tpl) (t_bits tpl))]"
      and "tx' = (if cw then tx2\<lparr>wait_for_new_block := False\<rparr> else tx2)"
      and "height' = t_height tpl"
      by auto
    with Some f cons2 same show ?thesis by (auto simp: cw_def)
  qed
qed

lemma candidate_consistent_wait:
  "candidate_consistent X (s\<lparr>wait_for_new_block := b\<rparr>) h = candidate_consistent X s h"
  by (simp add: candidate_consistent_def)

lemma candidate_needs_transactions: "transactions s = [] \<Longrightarrow> \<not> candidate_consistent X s h"
  by (simp add: candidate_consistent_def)

lemma rebuild_result:
  assumes "update_transactions X s new_height version height bits ts prev_hash txs
             my_sats witness_commitment flags = Inr (True, s')"
    and "\<not> wait_for_new_block s"
  shows "\<exists>cb cnw raws ids header.
           incoming txs = Inr (raws, ids)
           \<and> coinbase s' = Some cb \<and> coinbase_no_wit s' = Some cnw
           \<and> transactions s' = cb # raws
           \<and> merkle s' = Some (fst (merkle_from_txids X (dsha256 X cnw # ids)))
           \<and> partial_header s' = Some header
           \<and> header_hash s' = Some (rev (dsha256 X (rev header)))
           \<and> seed_hash s' = Some (seed_for_height X height)"
proof -
  from update_transactions_cases [OF assms] obtain s2
    where "recalculate X s2 version height bits prev_hash txs = Inr s'"
    by blast
  from recalculate_result [OF this] obtain cb cnw raws ids height_b t ts_b version_b
    where r: "coinbase s2 = Some cb" "coinbase_no_wit s2 = Some cnw"
      "incoming txs = Inr (raws, ids)"
      "s' = s2\<lparr>transactions := cb # raws,
               merkle := Some (fst (merkle_from_txids X (dsha256 X cnw # ids))),
               partial_header :=
                 Some (height_b @ bits @ ts_b
                       @ rev (fst (merkle_from_txids X (dsha256 X cnw # ids)))
                       @ prev_hash @ version_b),
               header_hash :=
                 Some (rev (dsha256 X (rev (height_b @ bits @ ts_b
                       @ rev (fst (merkle_from_txids X (dsha256 X cnw # ids)))
                       @ prev_hash @ version_b)))),
               seed_hash := Some (seed_for_height X height)\<rparr>"
    by blast
  show ?thesis
    apply (rule exI [of _ cb], rule exI [of _ cnw], rule exI [of _ raws], rule exI [of _ ids])
    apply (rule exI [of _ "height_b @ bits @ ts_b
                       @ rev (fst (merkle_from_txids X (dsha256 X cnw # ids)))
                       @ prev_hash @ version_b"])
    using r by simp
qed

lemma submit_clears:
  assumes "\<not> wait_for_new_block tx" and "transactions tx \<noteq> []"
    and "full_block tx nonce_hex mixhash_hex = Inr posted"
  shows "transactions (snd (handle_submit tx (worker, job_id, nonce_hex, header_hex, mixhash_hex)
                              json_resp)) = []"
  using assms by (simp add: handle_submit_def clear_for_new_height_def Let_def)

section \<open>The sample run\<close>

lemmas eval_codec =
  to_bytes_def le_digits_numeral bind_r_def var_int_def op_push_def hex_digit_def is_space_def
  strip_zeros.simps make_height_def bip34_height_def arbitrary_data_def
  build_coinbase_transaction_def Let_def

lemmas eval_strings =
  lock_in_def hold_on_def str_last_ts_def endswith_def str_int_def str_nat.simps from_end_def
  digit_char_def char_of_def digit_val_def int_of_str_def

lemma sample_fromhex:
  "fromhex (t_bits sample_template) = Inr [0x1b, 0x00, 0xf5, 0xa4]"
  "\<exists>b. fromhex (t_previousblockhash sample_template) = Inr b"
  "\<exists>b. fromhex (t_default_witness_commitment sample_template) = Inr b"
  by (simp_all add: sample_template_def hex_digit_def is_space_def bind_r_def)

lemma sample_rebuild_at:
  assumes "\<not> wait_for_new_block S" and "transactions S = []"
    and "my_address S = Some sample_address" and "transport S = Some sid"
    and "hold_on (last_ts S) 1700000000 = Inr 1700000000"
  shows "case query_loop_round sample_lib (S, h) sample_template 1700000000 of
           Inl e \<Rightarrow> False
         | Inr (notes, tx, h') \<Rightarrow>
             h' = 100
             \<and> (\<exists>hh sh. notes = [(sid, Set_target (t_target sample_template)),
                                 (sid, Notify ''0'' hh sh (t_target sample_template) True 100
                                         (t_bits sample_template))]
                        \<and> header_hash tx = Some hh \<and> seed_hash tx = Some sh)
             \<and> length (transactions tx) = 2 \<and> \<not> wait_for_new_block tx
             \<and> transport tx = Some sid \<and> my_address tx = Some sample_address
             \<and> last_ts tx = Some 1700000000 \<and> (\<exists>header. partial_header tx = Some header)"
  using assms
  by (simp add: query_loop_round_def announce_def clear_work_of_def clear_for_new_height_def
        update_transactions_def has_address_def update_coinbase_every_def recalculate_def
        merkle_from_txids_def merkle_loop.simps merkle_level_def dsha256_def
        seed_for_height_def KAWPOW_EPOCH_LENGTH_def
        lock_in_def str_int_def str_nat.simps from_end_def digit_char_def char_of_def
        eval_codec sample_lib_def sample_address_def sample_template_def)

lemma sample_rebuild:
  assumes "\<not> wait_for_new_block S" and "transactions S = []"
    and "my_address S = Some sample_address" and "transport S = Some sid"
    and "last_ts S = None \<or> last_ts S = Some 1700000000"
  shows "\<exists>notes tx hh sh header.
           query_loop_round sample_lib (S, h) sample_template 1700000000 = Inr (notes, tx, 100)
           \<and> notes = [(sid, Set_target (t_target sample_template)),
                      (sid, Notify ''0'' hh sh (t_target sample_template) True 100
                              (t_bits sample_template))]
           \<and> header_hash tx = Some hh \<and> seed_hash tx = Some sh
           \<and> length (transactions tx) = 2 \<and> \<not> wait_for_new_block tx
           \<and> transport tx = Some sid \<and> my_address tx = Some sample_address
           \<and> last_ts tx = Some 1700000000 \<and> partial_header tx = Some header"
proof -
  have "hold_on (last_ts S) 1700000000 = Inr 1700000000"
    using assms(5) by (auto simp: eval_strings)
  from sample_rebuild_at [OF assms(1-4) this, of h] show ?thesis
    by (auto split: sum.splits prod.splits)
qed

lemma sample_authorized_eq:
  "sample_authorized = initial_state\<lparr>transport := Some 1, my_address := Some sample_address\<rparr>"
  by (simp add: sample_authorized_def authorize_handler_def sample_lib_def sample_address_def
        new_session_def initial_state_def)

lemma sample_two_sessions_eq:
  "sample_two_sessions = initial_state\<lparr>transport := Some 2, my_address := Some sample_address\<rparr>"
  by (simp add: sample_two_sessions_def authorize_handler_def sample_lib_def sample_address_def
        new_session_def initial_state_def)

lemma sample_candidate_facts:
  "\<exists>hh sh header.
     sample_round1 = Inr ([(1, Set_target (t_target sample_template)),
                           (1, Notify ''0'' hh sh (t_target sample_template) True 100
                                 (t_bits sample_template))],
                          sample_candidate, 100)
     \<and> header_hash sample_candidate = Some hh \<and> seed_hash sample_candidate = Some sh
     \<and> partial_header sample_candidate = Some header
     \<and> length (transactions sample_candidate) = 2 \<and> \<not> wait_for_new_block sample_candidate
     \<and> transport sample_candidate = Some 1 \<and> my_address sample_candidate = Some sample_address
     \<and> last_ts sample_candidate = Some 1700000000"
proof -
  have "\<not> wait_for_new_block sample_authorized" "transactions sample_authorized = []"
    "my_address sample_authorized = Some sample_address" "transport sample_authorized = Some 1"
    "last_ts sample_authorized = None \<or> last_ts sample_authorized = Some 1700000000"
    by (simp_all add: sample_authorized_eq initial_state_def)
  from sample_rebuild [OF this, of "-1"] show ?thesis
    by (auto simp: sample_round1_def sample_candidate_def)
qed

lemma sample_share_hex:
  "\<exists>nonce. fromhex (drop 2 ''0x00000000deadbeef'') = Inr nonce"
  "\<exists>mixhash. fromhex (drop 2 ''0x1111111111111111111111111111111111111111111111111111111111111111'')
     = Inr mixhash"
  by (simp_all add: hex_digit_def is_space_def bind_r_def)

lemma accepted_reply_ok:
  "\<not> truthy (json_get accepted_reply ''error'')" "\<not> truthy (json_get accepted_reply ''result'')"
  by (simp_all add: accepted_reply_def json_get_def)

lemma sample_submit_ok:
  assumes "partial_header tx = Some header" and "length (transactions tx) = 2"
    and "\<not> wait_for_new_block tx"
  shows "handle_submit tx sample_share accepted_reply
           = (Inr True, tx\<lparr>transactions := [], wait_for_new_block := True\<rparr>)"
proof -
  from sample_share_hex obtain nonce mixhash
    where "fromhex (drop 2 ''0x00000000deadbeef'') = Inr nonce"
      and "fromhex (drop 2 ''0x1111111111111111111111111111111111111111111111111111111111111111'')
             = Inr mixhash"
    by blast
  with assms(1, 2) obtain posted
    where "full_block tx ''0x00000000deadbeef''
             ''0x1111111111111111111111111111111111111111111111111111111111111111'' = Inr posted"
    using full_block_ok [of tx header "''0x00000000deadbeef''" nonce
        "''0x1111111111111111111111111111111111111111111111111111111111111111''" mixhash]
    by auto
  moreover from assms(2) have "transactions tx \<noteq> []" by auto
  ultimately show ?thesis
    unfolding sample_share_def
    using assms(3) accepted_reply_ok by (intro submit_accepted_state) simp_all
qed

lemma sample_locked_eq:
  "handle_submit sample_candidate sample_share accepted_reply = (Inr True, sample_locked)"
  "sample_locked = sample_candidate\<lparr>transactions := [], wait_for_new_block := True\<rparr>"
proof -
  from sample_candidate_facts obtain header
    where "partial_header sample_candidate = Some header"
      and "length (transactions sample_candidate) = 2"
      and "\<not> wait_for_new_block sample_candidate"
    by blast
  from sample_submit_ok [OF this]
  show "handle_submit sample_candidate sample_share accepted_reply = (Inr True, sample_locked)"
    and "sample_locked = sample_candidate\<lparr>transactions := [], wait_for_new_block := True\<rparr>"
    by (simp_all add: sample_locked_def)
qed

lemma sample_round2_eq:
  "\<exists>hh sh. sample_round2
     = Inr ([(1, Set_target (t_target sample_template)),
             (1, Notify ''0'' hh sh (t_target sample_template) True 100 (t_bits sample_template))],
            sample_released, 100)"
  "sample_released = sample_candidate\<lparr>transactions := [], wait_for_new_block := False\<rparr>"
proof -
  from sample_candidate_facts obtain hh sh
    where c: "header_hash sample_candidate = Some hh" "seed_hash sample_candidate = Some sh"
      "transport sample_candidate = Some 1"
    by blast
  from sample_fromhex obtain b2 b3
    where hex: "fromhex (t_bits sample_template) = Inr [0x1b, 0x00, 0xf5, 0xa4]"
      "fromhex (t_previousblockhash sample_template) = Inr b2"
      "fromhex (t_default_witness_commitment sample_template) = Inr b3"
    by blast
  have l: "wait_for_new_block sample_locked" "transport sample_locked = Some 1"
    "header_hash sample_locked = Some hh" "seed_hash sample_locked = Some sh"
    "transactions sample_locked = []"
    using c by (simp_all add: sample_locked_eq(2))
  have cw: "clear_work_of sample_locked 100 sample_template" "t_height sample_template = 100"
    using l(5) by (simp_all add: clear_work_of_def sample_template_def)
  have r: "sample_round2
        = Inr ([(1, Set_target (t_target sample_template)),
                (1, Notify ''0'' hh sh (t_target sample_template) True 100
                      (t_bits sample_template))],
               sample_candidate\<lparr>transactions := [], wait_for_new_block := False\<rparr>, 100)"
    unfolding sample_round2_def
    using round_under_lock [OF l(1) hex l(2, 3, 4), where h = 100 and X = sample_lib
        and now = 1700000000] cw l(5)
    by (simp add: sample_locked_eq(2))
  show rel: "sample_released = sample_candidate\<lparr>transactions := [], wait_for_new_block := False\<rparr>"
    by (simp add: sample_released_def r)
  show "\<exists>hh sh. sample_round2
     = Inr ([(1, Set_target (t_target sample_template)),
             (1, Notify ''0'' hh sh (t_target sample_template) True 100 (t_bits sample_template))],
            sample_released, 100)"
    by (simp add: r rel)
qed

lemma sample_rebuilt_facts:
  "\<exists>hh sh header.
     sample_round3 = Inr ([(1, Set_target (t_target sample_template)),
                           (1, Notify ''0'' hh sh (t_target sample_template) True 100
                                 (t_bits sample_template))],
                          sample_rebuilt, 100)
     \<and> partial_header sample_rebuilt = Some header
     \<and> length (transactions sample_rebuilt) = 2 \<and> \<not> wait_for_new_block sample_rebuilt"
proof -
  from sample_candidate_facts
  have "\<not> wait_for_new_block sample_released" "transactions sample_released = []"
    "my_address sample_released = Some sample_address" "transport sample_released = Some 1"
    "last_ts sample_released = None \<or> last_ts sample_released = Some 1700000000"
    by (auto simp: sample_round2_eq(2))
  from sample_rebuild [OF this, of 100] show ?thesis
    by (auto simp: sample_round3_def sample_rebuilt_def)
qed

lemma sample_second_submit:
  "fst (handle_submit sample_rebuilt sample_share accepted_reply) = Inr True"
proof -
  from sample_rebuilt_facts obtain header
    where "partial_header sample_rebuilt = Some header"
      and "length (transactions sample_rebuilt) = 2"
      and "\<not> wait_for_new_block sample_rebuilt"
    by blast
  from sample_submit_ok [OF this] show ?thesis by simp
qed

lemma sample_round_two_notes:
  "map fst (fst (projr sample_round_two)) = [2, 2]"
proof -
  have "\<not> wait_for_new_block sample_two_sessions" "transactions sample_two_sessions = []"
    "my_address sample_two_sessions = Some sample_address"
    "transport sample_two_sessions = Some 2"
    "last_ts sample_two_sessions = None \<or> last_ts sample_two_sessions = Some 1700000000"
    by (simp_all add: sample_two_sessions_eq initial_state_def)
  from sample_rebuild [OF this, of "-1"] show ?thesis
    by (auto simp: sample_round_two_def)
qed

lemma sample_update:
  "\<exists>bits prev_hash wc rebuilt.
     update_transactions sample_lib (clear_for_new_height sample_authorized) True
         (t_version sample_template) 100 bits 1700000000 prev_hash
         (t_transactions sample_template) (t_coinbasevalue sample_template) wc
         (t_flags sample_template) = Inr (True, rebuilt)
     \<and> \<not> wait_for_new_block (clear_for_new_height sample_authorized)
     \<and> sample_candidate = rebuilt\<lparr>wait_for_new_block := False\<rparr>"
proof -
  from sample_candidate_facts obtain sent
    where r: "query_loop_round sample_lib (sample_authorized, -1) sample_template 1700000000
                = Inr (sent, sample_candidate, 100)"
    unfolding sample_round1_def by blast
  have h: "t_height sample_template = 100" by (simp add: sample_template_def)
  define start where "start = clear_for_new_height sample_authorized"
  have start: "\<not> wait_for_new_block start" "has_address start"
    "clear_work_of sample_authorized (-1) sample_template" "transport start = Some 1"
    by (simp_all add: start_def sample_authorized_eq initial_state_def has_address_def
          sample_address_def clear_work_of_def clear_for_new_height_def)
  from round_steps [OF r] obtain bits prev_hash wc should_notify rebuilt
    where upd: "update_transactions sample_lib start True (t_version sample_template) 100 bits
                  1700000000 prev_hash (t_transactions sample_template)
                  (t_coinbasevalue sample_template) wc (t_flags sample_template)
                = Inr (should_notify, rebuilt)"
      and ann: "announce True sample_template 100 (should_notify, rebuilt)
                = Inr (sent, sample_candidate, 100)"
    using start(3) h by (auto simp: start_def)
  from update_transactions_cases [OF upd start(1)] start(2) obtain s2
    where yes: "should_notify"
      and s2: "recalculate sample_lib s2 (t_version sample_template) 100 bits prev_hash
                 (t_transactions sample_template) = Inr rebuilt"
        "transport s2 = transport start"
    by auto
  from recalculate_fields [OF s2(1)] s2(2) start(4)
  have tr: "transport rebuilt = Some 1" by simp
  from announce_result [OF ann] yes tr
  have "sample_candidate = rebuilt\<lparr>wait_for_new_block := False\<rparr>" by auto
  moreover from upd yes
  have "update_transactions sample_lib start True (t_version sample_template) 100 bits
          1700000000 prev_hash (t_transactions sample_template)
          (t_coinbasevalue sample_template) wc (t_flags sample_template)
        = Inr (True, rebuilt)"
    by simp
  ultimately show ?thesis using start(1) unfolding start_def by blast
qed

lemma sample_candidate_consistent: "candidate_consistent sample_lib sample_candidate 100"
proof -
  from sample_update obtain bits prev_hash wc rebuilt
    where upd: "update_transactions sample_lib (clear_for_new_height sample_authorized) True
                  (t_version sample_template) 100 bits 1700000000 prev_hash
                  (t_transactions sample_template) (t_coinbasevalue sample_template) wc
                  (t_flags sample_template) = Inr (True, rebuilt)"
      and start: "\<not> wait_for_new_block (clear_for_new_height sample_authorized)"
      and cand: "sample_candidate = rebuilt\<lparr>wait_for_new_block := False\<rparr>"
    by blast
  from update_transactions_cases [OF upd start] recalculate_consistent
  have "candidate_consistent sample_lib rebuilt 100" by blast
  then show ?thesis by (simp only: cand candidate_consistent_wait)
qed

section \<open>Seed hash\<close>

lemma seed_loop_funpow: "seed_loop X n seed = (keccak_256 X ^^ n) seed"
  by (induction n arbitrary: seed) (simp_all add: funpow_swap1)

text \<open>
  Claim C9. The seed hash for height \<open>h\<close> is 32 zero bytes under exactly
  \<open>h div 7500\<close> applications of \<open>keccak_256\<close>, each to the previous seed; two
  heights of one epoch have the same seed hash, and a height in the next epoch has
  the seed hash of the epoch before under one more application. It is the value
  \<open>update_transactions\<close> stores whenever it rebuilds the candidate.
\<close>

theorem seed_hash_epochs:
  "seed_for_height X h = (keccak_256 X ^^ nat (h div 7500)) (replicate 32 0)
   \<and> (h div 7500 = h' div 7500 \<longrightarrow> seed_for_height X h = seed_for_height X h')
   \<and> (0 \<le> h \<and> h' div 7500 = h div 7500 + 1 \<longrightarrow>
        seed_for_height X h' = keccak_256 X (seed_for_height X h))
   \<and> (update_transactions X self new_height version h bits ts prev_hash txs my_sats
          witness_commitment flags = Inr (True, self') \<and> \<not> wait_for_new_block self \<longrightarrow>
        seed_hash self' = Some ((keccak_256 X ^^ nat (h div 7500)) (replicate 32 0)))"
proof -
  have iter: "\<And>k. seed_for_height X k = (keccak_256 X ^^ nat (k div 7500)) (replicate 32 0)"
    by (simp add: seed_for_height_def KAWPOW_EPOCH_LENGTH_def seed_loop_funpow)
  have next_epoch: "seed_for_height X h' = keccak_256 X (seed_for_height X h)"
    if "0 \<le> h" and "h' div 7500 = h div 7500 + 1"
  proof -
    from that(1) have "0 \<le> h div 7500" by simp
    with that(2) have "nat (h' div 7500) = Suc (nat (h div 7500))" by simp
    then show ?thesis by (simp add: iter)
  qed
  have stored: "seed_hash self' = Some ((keccak_256 X ^^ nat (h div 7500)) (replicate 32 0))"
    if "update_transactions X self new_height version h bits ts prev_hash txs my_sats
          witness_commitment flags = Inr (True, self')" and "\<not> wait_for_new_block self"
    using rebuild_result [OF that] by (auto simp: iter)
  have same: "seed_for_height X h = seed_for_height X h'" if "h div 7500 = h' div 7500"
    using that by (simp add: iter)
  show ?thesis
    using iter [of h] next_epoch stored same by blast
qed

theorem seed_hash_epochs_witness:
  "seed_for_height sample_lib 7499 = replicate 32 0
   \<and> seed_for_height sample_lib 0 = seed_for_height sample_lib 7499
   \<and> seed_for_height sample_lib 7500 = keccak_256 sample_lib (seed_for_height sample_lib 7499)
   \<and> seed_for_height sample_lib 7500 = 2 # replicate 32 0
   \<and> seed_hash sample_candidate = Some (replicate 32 0)"
proof -
  from sample_update obtain bits prev_hash wc rebuilt
    where upd: "update_transactions sample_lib (clear_for_new_height sample_authorized) True
                  (t_version sample_template) 100 bits 1700000000 prev_hash
                  (t_transactions sample_template) (t_coinbasevalue sample_template) wc
                  (t_flags sample_template) = Inr (True, rebuilt)"
      and start: "\<not> wait_for_new_block (clear_for_new_height sample_authorized)"
      and cand: "sample_candidate = rebuilt\<lparr>wait_for_new_block := False\<rparr>"
    by blast
  from seed_hash_epochs [where X = sample_lib and h = 100
      and self = "clear_for_new_height sample_authorized" and self' = rebuilt
      and new_height = True and version = "t_version sample_template" and bits = bits
      and ts = 1700000000 and prev_hash = prev_hash and txs = "t_transactions sample_template"
      and my_sats = "t_coinbasevalue sample_template" and witness_commitment = wc
      and flags = "t_flags sample_template"] upd start
  have "seed_hash rebuilt = Some (replicate 32 0)" by simp
  then have stored: "seed_hash sample_candidate = Some (replicate 32 0)"
    by (simp add: cand)
  from seed_hash_epochs [where X = sample_lib and h = 7499 and h' = 7500]
    seed_hash_epochs [where X = sample_lib and h = 0 and h' = 7499]
  have "seed_for_height sample_lib 7499 = replicate 32 0
        \<and> seed_for_height sample_lib 0 = seed_for_height sample_lib 7499
        \<and> seed_for_height sample_lib 7500
            = keccak_256 sample_lib (seed_for_height sample_lib 7499)
        \<and> seed_for_height sample_lib 7500 = 2 # replicate 32 0"
    by (simp add: sample_lib_def)
  with stored show ?thesis by blast
qed

section \<open>Submitting a share\<close>

text \<open>
  Claim C1, amended. On a \<^verbatim>\<open>mining.submit\<close> against held work where the node accepts the
  block (the reply's error and result fields are both null or empty), the session
  sets the submission lock and returns success, and the held work is already gone:
  the submit itself empties the cached candidate's transaction list, before it posts
  the block and whatever the node then answers.
\<close>

theorem handle_submit_accepted:
  "\<not> wait_for_new_block tx \<Longrightarrow> transactions tx \<noteq> [] \<Longrightarrow>
   full_block tx nonce_hex mixhash_hex = Inr posted \<Longrightarrow>
     (\<not> truthy (json_get json_resp ''error'') \<and> \<not> truthy (json_get json_resp ''result'') \<longrightarrow>
        handle_submit tx (worker, job_id, nonce_hex, header_hex, mixhash_hex) json_resp
          = (Inr True, tx\<lparr>transactions := [], wait_for_new_block := True\<rparr>))
     \<and> transactions (snd (handle_submit tx (worker, job_id, nonce_hex, header_hex, mixhash_hex)
                             any_resp)) = []"
  using submit_accepted_state [of tx nonce_hex mixhash_hex posted json_resp worker job_id
      header_hex]
    submit_clears [of tx nonce_hex mixhash_hex posted worker job_id header_hex any_resp]
  by blast

theorem handle_submit_accepted_witness:
  "handle_submit sample_candidate sample_share accepted_reply
     = (Inr True, sample_candidate\<lparr>transactions := [], wait_for_new_block := True\<rparr>)
   \<and> transactions (snd (handle_submit sample_candidate sample_share
                          [''result'' \<mapsto> JStr ''high-hash''])) = []"
proof -
  from sample_candidate_facts obtain header
    where c: "partial_header sample_candidate = Some header"
      "length (transactions sample_candidate) = 2" "\<not> wait_for_new_block sample_candidate"
    by blast
  from sample_share_hex obtain nonce mixhash
    where "fromhex (drop 2 ''0x00000000deadbeef'') = Inr nonce"
      and "fromhex (drop 2 ''0x1111111111111111111111111111111111111111111111111111111111111111'')
             = Inr mixhash"
    by blast
  with c(1, 2) obtain posted
    where p: "full_block sample_candidate ''0x00000000deadbeef''
             ''0x1111111111111111111111111111111111111111111111111111111111111111'' = Inr posted"
    using full_block_ok [of sample_candidate header "''0x00000000deadbeef''" nonce
        "''0x1111111111111111111111111111111111111111111111111111111111111111''" mixhash]
    by auto
  from c(2) have ne: "transactions sample_candidate \<noteq> []" by auto
  from handle_submit_accepted [OF c(3) ne p, of accepted_reply "''miner1''" "''0''" "''0x8f0c3e5d''"
      "[''result'' \<mapsto> JStr ''high-hash'']"] accepted_reply_ok
  show ?thesis
    unfolding sample_share_def by blast
qed

text \<open>
  The claim as stated fails on the sample run: the accepted submit leaves none of
  the candidate's two transactions behind.
\<close>

theorem handle_submit_clears_counterexample:
  "fst (handle_submit sample_candidate sample_share accepted_reply) = Inr True
   \<and> length (transactions sample_candidate) = 2
   \<and> transactions (snd (handle_submit sample_candidate sample_share accepted_reply)) = []"
  using sample_candidate_facts by (auto simp: sample_locked_eq)

text \<open>
  Claim C6, amended. \<^verbatim>\<open>mining.submit\<close> fails with the error of code 1 and changes
  nothing whenever the submission lock is set or the candidate's transaction list is
  empty. In particular, after one accepted submit a second submit fails with that
  error at once, and it still fails after the synchronizer's next tick (which, at an
  unchanged height, releases the lock and builds nothing). Only until then: the tick
  after that builds a candidate again, at the same height if the node's template has
  not moved on.
\<close>

theorem submit_needs_active_work:
  "(wait_for_new_block tx \<or> transactions tx = [] \<longrightarrow>
      handle_submit tx args json_resp = (Inl no_active_work, tx))
   \<and> (handle_submit tx args json_resp = (Inr True, tx') \<longrightarrow>
        handle_submit tx' args2 json_resp2 = (Inl no_active_work, tx')
        \<and> (query_loop_round X (tx', h) tpl now = Inr (notes, tx'', h') \<longrightarrow>
             handle_submit tx'' args3 json_resp3 = (Inl no_active_work, tx'')))"
proof -
  have after: "handle_submit tx' args2 json_resp2 = (Inl no_active_work, tx')
               \<and> (query_loop_round X (tx', h) tpl now = Inr (notes, tx'', h') \<longrightarrow>
                    handle_submit tx'' args3 json_resp3 = (Inl no_active_work, tx''))"
    if ok: "handle_submit tx args json_resp = (Inr True, tx')"
  proof -
    from submit_success_state [OF ok]
    have s: "wait_for_new_block tx'" "transactions tx' = []" by simp_all
    have "transactions tx'' = []"
      if "query_loop_round X (tx', h) tpl now = Inr (notes, tx'', h')"
      using that s by (rule round_keeps_no_work)
    then show ?thesis using s by (simp add: submit_guard)
  qed
  show ?thesis using submit_guard [of tx args json_resp] after by blast
qed

theorem submit_needs_active_work_witness:
  "handle_submit sample_candidate sample_share accepted_reply = (Inr True, sample_locked)
   \<and> handle_submit sample_locked sample_share accepted_reply = (Inl no_active_work, sample_locked)
   \<and> handle_submit sample_released sample_share accepted_reply
       = (Inl no_active_work, sample_released)"
proof -
  from sample_round2_eq(1) obtain sent
    where r: "query_loop_round sample_lib (sample_locked, 100) sample_template 1700000000
                = Inr (sent, sample_released, 100)"
    unfolding sample_round2_def by blast
  have locked: "wait_for_new_block sample_locked \<or> transactions sample_locked = []"
    by (simp add: sample_locked_eq(2))
  from submit_needs_active_work [of sample_locked sample_share accepted_reply sample_locked
      sample_share accepted_reply sample_lib 100 sample_template 1700000000 sent
      sample_released 100 sample_share accepted_reply] locked
  have guard: "handle_submit sample_locked sample_share accepted_reply
                 = (Inl no_active_work, sample_locked)"
    by blast
  from submit_needs_active_work [of sample_candidate sample_share accepted_reply sample_locked
      sample_share accepted_reply sample_lib 100 sample_template 1700000000 sent
      sample_released 100 sample_share accepted_reply]
    sample_locked_eq(1) r guard
  show ?thesis by simp
qed

text \<open>
  The claim as stated fails on the sample run: the node's template stays at height
  100 throughout, the first submit is accepted, and after two more ticks a second
  submit at that height is accepted as well.
\<close>

theorem second_submit_counterexample:
  "fst (handle_submit sample_candidate sample_share accepted_reply) = Inr True
   \<and> snd (snd (projr sample_round1)) = 100
   \<and> snd (snd (projr sample_round2)) = 100
   \<and> snd (snd (projr sample_round3)) = 100
   \<and> fst (handle_submit sample_rebuilt sample_share accepted_reply) = Inr True"
proof -
  from sample_candidate_facts obtain n1
    where r1: "sample_round1 = Inr (n1, sample_candidate, 100)" by blast
  from sample_round2_eq(1) obtain n2
    where r2: "sample_round2 = Inr (n2, sample_released, 100)" by blast
  from sample_rebuilt_facts obtain n3
    where r3: "sample_round3 = Inr (n3, sample_rebuilt, 100)" by blast
  show ?thesis
    by (simp add: sample_locked_eq(1) sample_second_submit r1 r2 r3)
qed

section \<open>The rebuild check\<close>

text \<open>
  Claim C2, amended. For every invocation of the rebuild check
  (\<open>update_transactions\<close>) made while the submission lock is set, the call returns
  true and changes nothing: no new candidate block is built. The synchronizer
  therefore does send the job notification of that tick, to the connected session if
  there is one, with the header hash and seed hash that were stored before.
\<close>

theorem update_transactions_locked:
  "wait_for_new_block self \<Longrightarrow>
     update_transactions X self new_height version height bits ts prev_hash
       incoming_transactions my_sats witness_commitment flags = Inr (True, self)
     \<and> (fromhex (t_bits tpl) = Inr b1 \<and> fromhex (t_previousblockhash tpl) = Inr b2
          \<and> fromhex (t_default_witness_commitment tpl) = Inr b3
          \<and> transport self = Some sid \<and> header_hash self = Some hh \<and> seed_hash self = Some sh
          \<longrightarrow> (\<exists>notes self'.
                 query_loop_round X (self, h) tpl now = Inr (notes, self', t_height tpl)
                 \<and> last notes = (sid, Notify ''0'' hh sh (t_target tpl) (clear_work_of self h tpl)
                                        (t_height tpl) (t_bits tpl))
                 \<and> coinbase self' = coinbase self \<and> merkle self' = merkle self
                 \<and> partial_header self' = partial_header self
                 \<and> header_hash self' = header_hash self \<and> seed_hash self' = seed_hash self
                 \<and> length (transactions self') \<le> length (transactions self)))"
proof -
  assume locked: "wait_for_new_block self"
  have "\<exists>notes self'.
          query_loop_round X (self, h) tpl now = Inr (notes, self', t_height tpl)
          \<and> last notes = (sid, Notify ''0'' hh sh (t_target tpl) (clear_work_of self h tpl)
                                 (t_height tpl) (t_bits tpl))
          \<and> coinbase self' = coinbase self \<and> merkle self' = merkle self
          \<and> partial_header self' = partial_header self
          \<and> header_hash self' = header_hash self \<and> seed_hash self' = seed_hash self
          \<and> length (transactions self') \<le> length (transactions self)"
    if "fromhex (t_bits tpl) = Inr b1" and "fromhex (t_previousblockhash tpl) = Inr b2"
      and "fromhex (t_default_witness_commitment tpl) = Inr b3"
      and "transport self = Some sid" and "header_hash self = Some hh"
      and "seed_hash self = Some sh"
    using round_under_lock [OF locked that, where h = h and X = X and now = now] by simp
  then show ?thesis
    using update_transactions_under_lock [OF locked] by blast
qed

theorem update_transactions_locked_witness:
  "update_transactions sample_lib sample_locked True 805306368 100 [0x1b, 0x00, 0xf5, 0xa4]
       1700000000 [] [] 500000000000 [] [] = Inr (True, sample_locked)
   \<and> (\<exists>notes tx'. query_loop_round sample_lib (sample_locked, 100) sample_template 1700000000
                      = Inr (notes, tx', 100)
                    \<and> fst (last notes) = 1 \<and> merkle tx' = merkle sample_locked)"
proof -
  from sample_candidate_facts obtain hh sh
    where c: "header_hash sample_candidate = Some hh" "seed_hash sample_candidate = Some sh"
      "transport sample_candidate = Some 1"
    by blast
  from sample_fromhex obtain b2 b3
    where hex: "fromhex (t_bits sample_template) = Inr [0x1b, 0x00, 0xf5, 0xa4]"
      "fromhex (t_previousblockhash sample_template) = Inr b2"
      "fromhex (t_default_witness_commitment sample_template) = Inr b3"
    by blast
  have l: "wait_for_new_block sample_locked" "transport sample_locked = Some 1"
    "header_hash sample_locked = Some hh" "seed_hash sample_locked = Some sh"
    using c by (simp_all add: sample_locked_eq(2))
  have h100: "t_height sample_template = 100" by (simp add: sample_template_def)
  from update_transactions_locked [OF l(1), of sample_lib True 805306368 100
      "[0x1b, 0x00, 0xf5, 0xa4]" 1700000000 "[]" "[]" 500000000000 "[]" "[]" sample_template
      "[0x1b, 0x00, 0xf5, 0xa4]" b2 b3 1 hh sh 100 1700000000]
    hex l(2, 3, 4) h100
  show ?thesis by auto
qed

text \<open>
  The claim as stated fails on the sample run: with the lock set the call returns
  true, and the tick sends the session a target update and a job notification.
\<close>

theorem update_transactions_locked_counterexample:
  "wait_for_new_block sample_locked
   \<and> fst (projr (update_transactions sample_lib sample_locked True 805306368 100
                   [0x1b, 0x00, 0xf5, 0xa4] 1700000000 [] [] 500000000000 [] [])) = True
   \<and> map fst (fst (projr sample_round2)) = [1, 1]"
proof -
  have l: "wait_for_new_block sample_locked" by (simp add: sample_locked_eq(2))
  from sample_round2_eq(1) obtain hh sh
    where r: "sample_round2
       = Inr ([(1, Set_target (t_target sample_template)),
               (1, Notify ''0'' hh sh (t_target sample_template) True 100
                     (t_bits sample_template))],
              sample_released, 100)"
    by blast
  show ?thesis
    by (simp add: l update_transactions_under_lock [OF l] r)
qed

section \<open>The derived values of the work state\<close>

text \<open>
  Claim C3, amended. After every candidate rebuild by \<open>update_transactions\<close> the
  stored transactions are the coinbase followed by the template's transactions, and
  the stored Merkle root, header hash and seed hash are the values derived from them
  and the height; an \<open>update_transactions\<close> that does not rebuild leaves them
  consistent if they were. \<open>clear_for_new_height\<close> and a submit that gets as far as
  posting the block only empty the transaction list: the three values stay as they
  were, those of the candidate just dropped, until the next rebuild.
\<close>

theorem derived_values_after_rebuild:
  "(update_transactions X s new_height version height bits ts prev_hash txs my_sats
        witness_commitment flags = Inr (True, s') \<and> \<not> wait_for_new_block s
      \<longrightarrow> candidate_consistent X s' height
          \<and> (\<exists>cb cnw raws ids header.
                incoming txs = Inr (raws, ids)
                \<and> coinbase s' = Some cb \<and> coinbase_no_wit s' = Some cnw
                \<and> transactions s' = cb # raws
                \<and> merkle s' = Some (fst (merkle_from_txids X (dsha256 X cnw # ids)))
                \<and> partial_header s' = Some header
                \<and> header_hash s' = Some (rev (dsha256 X (rev header)))
                \<and> seed_hash s' = Some (seed_for_height X height)))
   \<and> (update_transactions X s new_height version height bits ts prev_hash txs my_sats
          witness_commitment flags = Inr (r, s')
        \<and> (wait_for_new_block s \<or> \<not> r) \<and> candidate_consistent X s hk
      \<longrightarrow> candidate_consistent X s' hk)
   \<and> (merkle (clear_for_new_height s) = merkle s
        \<and> header_hash (clear_for_new_height s) = header_hash s
        \<and> seed_hash (clear_for_new_height s) = seed_hash s
        \<and> transactions (clear_for_new_height s) = []
        \<and> \<not> candidate_consistent X (clear_for_new_height s) hc)
   \<and> (handle_submit s args json_resp = (reply, s'')
      \<longrightarrow> merkle s'' = merkle s \<and> header_hash s'' = header_hash s
          \<and> seed_hash s'' = seed_hash s
          \<and> (s'' = s \<or> transactions s'' = [] \<and> \<not> candidate_consistent X s'' hc))"
proof -
  have a: "candidate_consistent X s' height
           \<and> (\<exists>cb cnw raws ids header.
                incoming txs = Inr (raws, ids)
                \<and> coinbase s' = Some cb \<and> coinbase_no_wit s' = Some cnw
                \<and> transactions s' = cb # raws
                \<and> merkle s' = Some (fst (merkle_from_txids X (dsha256 X cnw # ids)))
                \<and> partial_header s' = Some header
                \<and> header_hash s' = Some (rev (dsha256 X (rev header)))
                \<and> seed_hash s' = Some (seed_for_height X height))"
    if "update_transactions X s new_height version height bits ts prev_hash txs my_sats
          witness_commitment flags = Inr (True, s')" and "\<not> wait_for_new_block s"
    using update_transactions_cases [OF that] recalculate_consistent rebuild_result [OF that]
    by blast
  have b: "candidate_consistent X s' hk"
    if u: "update_transactions X s new_height version height bits ts prev_hash txs my_sats
          witness_commitment flags = Inr (r, s')"
      and nr: "wait_for_new_block s \<or> \<not> r" and c: "candidate_consistent X s hk"
  proof (cases "wait_for_new_block s")
    case True
    with u c show ?thesis by (simp add: update_transactions_under_lock)
  next
    case False
    with nr have "\<not> r" by simp
    with update_transactions_cases [OF u False] obtain held
      where "s' = s\<lparr>last_ts := Some held, update_counter := update_counter s + 1\<rparr>"
      by blast
    with c show ?thesis by (simp add: candidate_consistent_def)
  qed
  have c: "merkle (clear_for_new_height s) = merkle s
           \<and> header_hash (clear_for_new_height s) = header_hash s
           \<and> seed_hash (clear_for_new_height s) = seed_hash s
           \<and> transactions (clear_for_new_height s) = []
           \<and> \<not> candidate_consistent X (clear_for_new_height s) hc"
    using candidate_needs_transactions [of "clear_for_new_height s" X hc]
    by (simp add: clear_for_new_height_def)
  have d: "merkle s'' = merkle s \<and> header_hash s'' = header_hash s
           \<and> seed_hash s'' = seed_hash s
           \<and> (s'' = s \<or> transactions s'' = [] \<and> \<not> candidate_consistent X s'' hc)"
    if "handle_submit s args json_resp = (reply, s'')"
    using submit_frame [OF that] candidate_needs_transactions [of s'' X hc] by blast
  show ?thesis using a b c d by blast
qed

theorem derived_values_after_rebuild_witness:
  "candidate_consistent sample_lib sample_candidate 100
   \<and> length (transactions sample_candidate) = 2
   \<and> \<not> candidate_consistent sample_lib (clear_for_new_height sample_candidate) 100
   \<and> merkle (clear_for_new_height sample_candidate) = merkle sample_candidate
   \<and> merkle sample_locked = merkle sample_candidate
   \<and> \<not> candidate_consistent sample_lib sample_locked 100"
proof -
  from sample_update obtain bits prev_hash wc rebuilt
    where upd: "update_transactions sample_lib (clear_for_new_height sample_authorized) True
                  (t_version sample_template) 100 bits 1700000000 prev_hash
                  (t_transactions sample_template) (t_coinbasevalue sample_template) wc
                  (t_flags sample_template) = Inr (True, rebuilt)"
      and start: "\<not> wait_for_new_block (clear_for_new_height sample_authorized)"
      and cand: "sample_candidate = rebuilt\<lparr>wait_for_new_block := False\<rparr>"
    by blast
  note inst = derived_values_after_rebuild [where X = sample_lib and hc = 100]
  from inst [where s = "clear_for_new_height sample_authorized" and s' = rebuilt
      and height = 100 and new_height = True
      and version = "t_version sample_template" and bits = bits and ts = 1700000000
      and prev_hash = prev_hash and txs = "t_transactions sample_template"
      and my_sats = "t_coinbasevalue sample_template" and witness_commitment = wc
      and flags = "t_flags sample_template"] upd start
  have "candidate_consistent sample_lib rebuilt 100" by blast
  then have first: "candidate_consistent sample_lib sample_candidate 100"
    by (simp only: cand candidate_consistent_wait)
  from sample_candidate_facts
  have two: "length (transactions sample_candidate) = 2" by blast
  have "sample_locked \<noteq> sample_candidate"
  proof
    assume "sample_locked = sample_candidate"
    then have "wait_for_new_block sample_locked = wait_for_new_block sample_candidate" by simp
    with sample_candidate_facts show False by (auto simp: sample_locked_eq(2))
  qed
  with inst [where s = sample_candidate and args = sample_share and json_resp = accepted_reply
      and reply = "Inr True" and s'' = sample_locked] sample_locked_eq(1) first two
  show ?thesis by blast
qed

text \<open>
  The claim as stated fails on the sample run: after \<open>clear_for_new_height\<close>, and
  after the accepted submit, no transaction is stored, and the Merkle root and the
  header hash are still those of the candidate with two transactions.
\<close>

theorem stale_after_clear_counterexample:
  "candidate_consistent sample_lib sample_candidate 100
   \<and> transactions (clear_for_new_height sample_candidate) = []
   \<and> merkle (clear_for_new_height sample_candidate) = merkle sample_candidate
   \<and> header_hash (clear_for_new_height sample_candidate) = header_hash sample_candidate
   \<and> \<not> candidate_consistent sample_lib (clear_for_new_height sample_candidate) 100
   \<and> transactions sample_locked = []
   \<and> merkle sample_locked = merkle sample_candidate
   \<and> header_hash sample_locked = header_hash sample_candidate
   \<and> \<not> candidate_consistent sample_lib sample_locked 100"
  using sample_candidate_consistent
  by (simp add: clear_for_new_height_def candidate_consistent_def sample_locked_eq(2))

section \<open>Announcing a candidate\<close>

text \<open>
  Claim C5, amended. Whenever a synchronizer tick produces a new candidate block, a
  job notification carrying the new header hash and seed hash is sent to one session,
  the one that connected last, and to nobody when no session has connected. It is
  preceded by a target-update notification exactly when its clean-jobs flag is true,
  and the flag is true exactly when the height changed or no transaction was held
  when the tick began.
\<close>

theorem round_announces_candidate:
  assumes "query_loop_round X (tx, height) tpl now = Inr (notes, tx', height')"
    and "\<not> wait_for_new_block tx" and "has_address tx"
    and "clear_work_of tx height tpl \<or> update_coinbase_every \<le> update_counter tx + 1
           \<or> length (transactions tx) \<noteq> length (t_transactions tpl) + 1"
  shows "length (transactions tx') = Suc (length (t_transactions tpl))
         \<and> clear_work_of tx height tpl = (transactions tx = [] \<or> height \<noteq> t_height tpl)
         \<and> (transport tx = None \<longrightarrow> notes = [])
         \<and> (\<forall>sid. transport tx = Some sid \<longrightarrow>
               (\<exists>hh sh. header_hash tx' = Some hh \<and> seed_hash tx' = Some sh
                  \<and> notes = (if clear_work_of tx height tpl
                              then [(sid, Set_target (t_target tpl))] else [])
                             @ [(sid, Notify ''0'' hh sh (t_target tpl)
                                        (clear_work_of tx height tpl) (t_height tpl)
                                        (t_bits tpl))]))
         \<and> transport (new_session later (new_session earlier before)) = Some later"
proof -
  have "clear_work_of tx height tpl = (transactions tx = [] \<or> height \<noteq> t_height tpl)"
    by (simp only: clear_work_of_def)
  moreover have "transport (new_session later (new_session earlier before)) = Some later"
    by (simp add: new_session_def)
  ultimately show ?thesis using round_rebuild [OF assms] by blast
qed

theorem round_announces_candidate_witness:
  "\<exists>hh sh. sample_round_two
     = Inr ([(2, Set_target (t_target sample_template)),
             (2, Notify ''0'' hh sh (t_target sample_template) True 100 (t_bits sample_template))],
            fst (snd (projr sample_round_two)), 100)"
proof -
  have s: "\<not> wait_for_new_block sample_two_sessions" "transactions sample_two_sessions = []"
    "my_address sample_two_sessions = Some sample_address"
    "transport sample_two_sessions = Some 2"
    "last_ts sample_two_sessions = None \<or> last_ts sample_two_sessions = Some 1700000000"
    by (simp_all add: sample_two_sessions_eq initial_state_def)
  from sample_rebuild [OF s, of "-1"] obtain sent tx'
    where r: "query_loop_round sample_lib (sample_two_sessions, -1) sample_template 1700000000
                = Inr (sent, tx', 100)"
    by blast
  have "has_address sample_two_sessions"
    "clear_work_of sample_two_sessions (-1) sample_template"
    using s(2, 3) by (simp_all add: has_address_def sample_address_def clear_work_of_def)
  from round_announces_candidate [OF r s(1) this(1), where later = 2 and earlier = 1
      and before = initial_state] this(2) s(4)
  have "\<exists>hh sh. sent
          = [(2, Set_target (t_target sample_template)),
             (2, Notify ''0'' hh sh (t_target sample_template) True 100
                   (t_bits sample_template))]"
    by (auto simp: sample_template_def)
  then show ?thesis
    by (auto simp: sample_round_two_def r)
qed

text \<open>
  The claim as stated fails on the sample run. With two sessions connected, both
  notifications of the first tick go to session 2 and none to session 1. And the
  third tick, at the unchanged height 100, rebuilds the candidate that the submit
  emptied and sends a target update and a job notification with the clean-jobs flag
  true.
\<close>

theorem not_broadcast_counterexample:
  "map fst (fst (projr sample_round_two)) = [2, 2]
   \<and> 1 \<notin> set (map fst (fst (projr sample_round_two)))
   \<and> (\<exists>hh sh. sample_round3
         = Inr ([(1, Set_target (t_target sample_template)),
                 (1, Notify ''0'' hh sh (t_target sample_template) True 100
                       (t_bits sample_template))],
                sample_rebuilt, 100))
   \<and> snd (snd (projr sample_round2)) = t_height sample_template"
proof -
  from sample_round2_eq(1) obtain n2
    where r2: "sample_round2 = Inr (n2, sample_released, 100)" by blast
  from sample_rebuilt_facts
  have "\<exists>hh sh. sample_round3
         = Inr ([(1, Set_target (t_target sample_template)),
                 (1, Notify ''0'' hh sh (t_target sample_template) True 100
                       (t_bits sample_template))],
                sample_rebuilt, 100)"
    by blast
  then show ?thesis
    by (simp add: sample_round_two_notes r2 sample_template_def)
qed

end
